theory Spec2Isabelle
  imports Complex_Main "HOL-Library.Word"
begin

section \<open>Conventions of the embedding\<close>

text \<open>
  The monitoring service is written in Go.  Its functions are embedded as HOL functions
  over explicit state:
  \<^item> structs are records, Go maps are partial functions or association lists, slices
    and buffered channels are lists (a channel together with its capacity);
  \<^item> a Go \<open>error\<close> is a \<open>string option\<close> (\<open>None\<close> is \<open>nil\<close>), so a checker
    returns a pair of a result and an error as in the source;
  \<^item> wall-clock instants are integers counting nanoseconds, a \<open>time.Duration\<close> is an
    integer number of nanoseconds, the zero \<open>time.Time\<close> (the value \<open>IsZero\<close>
    recognises) is \<open>None\<close>;
  \<^item> what the network, the TLS library and the operating system answer is an input of
    the model (the records \<open>probe_io\<close>, \<open>smtp_io\<close>, \<open>dns_io\<close>); the check of a
    certificate's validity period in the TLS dial of the SSL checker is modelled, since
    the days until expiry depend on it;
  \<^item> every reading of the clock is an argument of the function that reads it;
  \<^item> the locks of the source are not modelled: each modelled operation runs with no
    other goroutine between its statements.  Where two workers are interleaved, the
    statements of \<open>saveResult\<close> are applied one group at a time.
\<close>

type_synonym uint32 = "32 word"
type_synonym byte = "8 word"
type_synonym time = int
type_synonym duration = int
type_synonym go_error = "string option"

definition Second :: duration where
  "Second = 1000000000"

definition Hour :: duration where
  "Hour = 3600 * Second"

definition maxDuration :: duration where
  "maxDuration = 2 ^ 63 - 1"

definition minDuration :: duration where
  "minDuration = - (2 ^ 63)"

text \<open>Two's complement wrap-around of Go's \<open>int64\<close> and \<open>int32\<close> arithmetic.\<close>

definition wrap_int64 :: "int \<Rightarrow> int" where
  "wrap_int64 x = (x + 2 ^ 63) mod 2 ^ 64 - 2 ^ 63"

definition wrap_int32 :: "int \<Rightarrow> int" where
  "wrap_int32 x = (x + 2 ^ 31) mod 2 ^ 32 - 2 ^ 31"

text \<open>Go's integer quotient rounds towards zero.\<close>

definition go_quot :: "int \<Rightarrow> int \<Rightarrow> int" where
  "go_quot a b = (if (a < 0) = (b < 0) then \<bar>a\<bar> div \<bar>b\<bar> else - (\<bar>a\<bar> div \<bar>b\<bar>))"

text \<open>
  \<open>t.Sub(u)\<close> saturates at the range of \<open>Duration\<close>; \<open>time.Since(t)\<close> is
  \<open>now.Sub(t)\<close> and \<open>time.Until(t)\<close> is \<open>t.Sub(now)\<close>.
\<close>

definition time_Sub :: "time \<Rightarrow> time \<Rightarrow> duration" where
  "time_Sub t u = max minDuration (min maxDuration (t - u))"

definition time_Since :: "time \<Rightarrow> time \<Rightarrow> duration" where
  "time_Since t now = time_Sub now t"

definition time_Until :: "time \<Rightarrow> time \<Rightarrow> duration" where
  "time_Until t now = time_Sub t now"

text \<open>
  \<open>d.Hours()\<close> is a \<open>float64\<close>; it is modelled by the exact quotient, so the rounding
  of the floating-point division is not part of the model.  The conversion \<open>int(f)\<close> of
  a float discards the fraction (it rounds towards zero).
\<close>

definition Hours :: "duration \<Rightarrow> real" where
  "Hours d = real_of_int d / real_of_int Hour"

definition go_int_of_float :: "real \<Rightarrow> int" where
  "go_int_of_float f = (if f < 0 then - \<lfloor>- f\<rfloor> else \<lfloor>f\<rfloor>)"

text \<open>
  \<open>time.Now().AddDate(0, 0, -30)\<close>: thirty calendar days back, taken as thirty days of
  24 hours (no change of the zone offset inside the window).
\<close>

definition AddDate_days :: "time \<Rightarrow> int \<Rightarrow> time" where
  "AddDate_days t n = t + n * 24 * Hour"

text \<open>\<open>fmt.Sprintf("%d", n)\<close> and \<open>fmt.Sscanf(s, "%d", &n)\<close> on decimal text.\<close>

fun fmt_nat :: "nat \<Rightarrow> string" where
  "fmt_nat n =
     (if n < 10 then [''0123456789'' ! n]
      else fmt_nat (n div 10) @ [''0123456789'' ! (n mod 10)])"

declare fmt_nat.simps [simp del]

definition fmt_d :: "int \<Rightarrow> string" where
  "fmt_d n = (if n < 0 then CHR ''-'' # fmt_nat (nat (- n)) else fmt_nat (nat n))"

text \<open>\<open>strings.IndexByte\<close>: the position of the first occurrence of a character.\<close>

fun index_byte :: "string \<Rightarrow> char \<Rightarrow> nat option" where
  "index_byte [] c = None"
| "index_byte (x # xs) c =
     (if x = c then Some 0 else map_option Suc (index_byte xs c))"

definition digit_val :: "char \<Rightarrow> nat option" where
  "digit_val c = index_byte ''0123456789'' c"

fun scan_digits :: "nat \<Rightarrow> string \<Rightarrow> nat" where
  "scan_digits acc [] = acc"
| "scan_digits acc (c # cs) =
     (case digit_val c of None \<Rightarrow> acc | Some d \<Rightarrow> scan_digits (10 * acc + d) cs)"

definition starts_with_digit :: "string \<Rightarrow> bool" where
  "starts_with_digit s = (case s of [] \<Rightarrow> False | c # _ \<Rightarrow> digit_val c \<noteq> None)"

text \<open>
  The scan of one decimal integer: an optional sign, then digits up to the first other
  character; \<open>None\<close> is the error of \<open>Sscanf\<close> when no digit is found.
\<close>

definition sscanf_d :: "string \<Rightarrow> int option" where
  "sscanf_d s =
     (case s of
        [] \<Rightarrow> None
      | c # cs \<Rightarrow>
          if c = CHR ''-'' then
            (if starts_with_digit cs then Some (- int (scan_digits 0 cs)) else None)
          else if c = CHR ''+'' then
            (if starts_with_digit cs then Some (int (scan_digits 0 cs)) else None)
          else if starts_with_digit s then Some (int (scan_digits 0 s)) else None)"

definition HasPrefix :: "string \<Rightarrow> string \<Rightarrow> bool" where
  "HasPrefix s p = (take (length p) s = p)"

fun join_lines :: "string list \<Rightarrow> string" where
  "join_lines [] = []"
| "join_lines [l] = l"
| "join_lines (l # ls) = l @ [CHR 0x0A] @ join_lines ls"

section \<open>Data model (internal/monitor, internal/models)\<close>

record ErrorDetails =
  err_Type :: string
  err_Message :: string

record RequestDetails =
  req_Method :: string
  req_URL :: string
  req_Headers :: "string \<rightharpoonup> string"
  req_Body :: string

record ResponseDetails =
  resp_StatusCode :: int
  resp_Headers :: "string \<rightharpoonup> string"
  resp_Body :: string
  resp_ContentLength :: int

text \<open>
  One entry of the certificate chain that the SSL checker stores under
  \<open>certificate_chain\<close>.  The entry's other keys (validity dates as text, key usage,
  signature algorithm, organisations, DNS names) are copied from the certificate and read
  by nothing in the pipeline; they are left out.
\<close>

record cert_info =
  ci_index :: int
  ci_subject_cn :: string
  ci_issuer_cn :: string
  ci_serial :: string
  ci_days_until_expiry :: int
  ci_is_ca :: bool

text \<open>The values that occur in \<open>CheckResult.Data\<close> (a \<open>map[string]interface{}\<close>).\<close>

datatype data_value =
  DChain "cert_info list"
| DBool bool
| DString string

type_synonym data_map = "(string \<times> data_value) list"

fun data_set :: "data_map \<Rightarrow> string \<Rightarrow> data_value \<Rightarrow> data_map" where
  "data_set [] k v = [(k, v)]"
| "data_set ((k', v') # d) k v = (if k' = k then (k, v) # d else (k', v') # data_set d k v)"

record CheckResult =
  Status :: string
  ResponseTime :: int
  Message :: string
  Data :: data_map
  Request :: RequestDetails
  Response :: ResponseDetails
  Error :: "ErrorDetails option"

definition RequestDetails0 :: RequestDetails where
  "RequestDetails0 =
     \<lparr>req_Method = [], req_URL = [], req_Headers = Map.empty, req_Body = []\<rparr>"

definition ResponseDetails0 :: ResponseDetails where
  "ResponseDetails0 =
     \<lparr>resp_StatusCode = 0, resp_Headers = Map.empty, resp_Body = [],
      resp_ContentLength = 0\<rparr>"

text \<open>The zero \<open>CheckResult\<close>: what a composite literal leaves in the fields it omits.\<close>

definition CheckResult0 :: CheckResult where
  "CheckResult0 =
     \<lparr>Status = [], ResponseTime = 0, Message = [], Data = [],
      Request = RequestDetails0, Response = ResponseDetails0, Error = None\<rparr>"

text \<open>
  \<open>MonitorTarget\<close> with the fields the modelled functions read.  The DNS, ping and SNMP
  settings and the metadata bag are read only by checkers whose run is an input of the
  model.
\<close>

record MonitorTarget =
  ID :: uint32
  Name :: string
  Type :: string
  Address :: string
  Port :: int
  Interval :: int
  Enabled :: bool
  HTTPMethod :: string
  HTTPBody :: string
  ExpectedStatusCodes :: "int list"
  SMTPUsername :: string
  SMTPPassword :: string
  SMTPUseTLS :: bool
  SMTPMailFrom :: string
  SMTPMailTo :: string
  SMTPCheckStartTLS :: bool
  SSLWarnDays :: int
  SSLCriticalDays :: int
  SSLCheck :: bool
  SSLGetChain :: bool

section \<open>What the outside world answers to a probe\<close>

text \<open>
  The answer of \<open>client.Do\<close> together with what the HTTP checker derives from it by
  library calls: the cloned response headers, the stored body (cut at 100 KB), the result
  of the separate DNS lookup with its fallbacks, and the extracted HTML title (empty when
  there is none or the content type is not HTML).
\<close>

record http_response =
  hr_StatusCode :: int
  hr_Status :: string
  hr_Header :: "string \<rightharpoonup> string"
  hr_Body :: string
  hr_ContentLength :: int
  hr_resolvedIP :: string
  hr_title :: string

datatype http_outcome =
  NewRequestFailed string
| DoFailed string
| Responded http_response

record certificate =
  Subject_CommonName :: string
  Issuer_CommonName :: string
  SerialNumber :: string
  NotBefore_text :: string
  NotAfter_text :: string
  NotBefore :: time
  NotAfter :: time
  IsCA :: bool

text \<open>
  What the network answers to the TLS dial of the SSL checker, together with every check
  of the client's certificate verification other than the validity period of the leaf
  (trust, host name, the rest of the chain): \<open>TLSDialFailed\<close> with the text of the
  error, or \<open>TLSConnected\<close> with the certificates the server presents.
\<close>

datatype tls_outcome =
  TLSDialFailed string
| TLSConnected "certificate list"

text \<open>
  The SMTP checker's conversation: each field is the error of one library call
  (\<open>None\<close> when the call succeeds); \<open>smtp_has_starttls\<close> is the answer of
  \<open>client.Extension("STARTTLS")\<close>.
\<close>

record smtp_io =
  smtp_tcp_dial :: go_error
  smtp_dial :: go_error
  smtp_has_starttls :: bool
  smtp_starttls :: go_error
  smtp_tls_dial :: go_error
  smtp_new_client :: go_error
  smtp_auth :: go_error
  smtp_mail :: go_error
  smtp_rcpt :: go_error
  smtp_reset :: go_error
  smtp_quit :: go_error
  smtp_elapsed_ms :: int

text \<open>
  One run of a probe against the world.  The \<open>_ms\<close> fields are the readings of
  \<open>time.Since(start).Milliseconds()\<close>; \<open>io_verify_now\<close> is the clock when the
  handshake of the TLS dial verifies the server's certificate and \<open>io_tls_invalid\<close> the
  text of the error when the leaf is outside its validity period then; \<open>io_now\<close> is the
  clock when the SSL checker, the dial done, calls \<open>time.Until\<close>; \<open>io_tls_address\<close> is
  the \<open>host:port\<close> the SSL checker dials; \<open>io_tls_details\<close> and \<open>io_tls_chain_summary\<close> are the localized lines of
  certificate detail that the SSL checker formats for its message; \<open>io_http_sent\<close>
  holds the request headers after the defaults are filled in.  \<open>io_other\<close> is what the
  DNS, ping or SNMP checker returns (they are not modelled).
\<close>

record probe_io =
  io_http :: http_outcome
  io_http_sent :: "string \<rightharpoonup> string"
  io_http_ms :: int
  io_https_ms :: int
  io_tls :: tls_outcome
  io_verify_now :: time
  io_tls_invalid :: string
  io_tls_address :: string
  io_tls_details :: "string list"
  io_tls_chain_summary :: string
  io_tls_ms :: int
  io_now :: time
  io_tcp_dial :: go_error
  io_tcp_ms :: int
  io_udp_dial :: go_error
  io_udp_ms :: int
  io_smtp :: smtp_io
  io_other :: "CheckResult \<times> go_error"

section \<open>Probe library (internal/monitor)\<close>

subsection \<open>HTTP (http.go)\<close>

fun determineStatus_loop :: "int \<Rightarrow> int list \<Rightarrow> string" where
  "determineStatus_loop statusCode [] = ''down''"
| "determineStatus_loop statusCode (code # rest) =
     (if statusCode = code then ''up'' else determineStatus_loop statusCode rest)"

definition determineStatus :: "int \<Rightarrow> int list \<Rightarrow> string" where
  "determineStatus statusCode expectedCodes =
     (if length expectedCodes = 0 then
        (if statusCode \<ge> 200 \<and> statusCode < 300 then ''up'' else ''down'')
      else determineStatus_loop statusCode expectedCodes)"

definition http_url :: "MonitorTarget \<Rightarrow> string" where
  "http_url target =
     (let url = Address target in
      if \<not> HasPrefix url ''http://'' \<and> \<not> HasPrefix url ''https://'' then
        (if Type target = ''http'' then ''http://'' @ url
         else if Type target = ''https'' then ''https://'' @ url
         else url)
      else url)"

definition http_method :: "MonitorTarget \<Rightarrow> string" where
  "http_method target = (if HTTPMethod target = [] then ''GET'' else HTTPMethod target)"

definition http_request_details :: "MonitorTarget \<Rightarrow> probe_io \<Rightarrow> RequestDetails" where
  "http_request_details target io =
     \<lparr>req_Method = http_method target, req_URL = http_url target,
      req_Headers = io_http_sent io, req_Body = HTTPBody target\<rparr>"

definition HTTPChecker_Check :: "MonitorTarget \<Rightarrow> probe_io \<Rightarrow> CheckResult \<times> go_error" where
  "HTTPChecker_Check target io =
     (case io_http io of
        NewRequestFailed err \<Rightarrow>
          (CheckResult0
             \<lparr>Status := ''down'', ResponseTime := io_http_ms io,
              Message := ''Failed to create request: '' @ err\<rparr>, None)
      | DoFailed err \<Rightarrow>
          (CheckResult0
             \<lparr>Status := ''down'', ResponseTime := io_http_ms io,
              Message := ''Request failed: '' @ err,
              Request := http_request_details target io,
              Error := Some \<lparr>err_Type = ''network_error'', err_Message = err\<rparr>\<rparr>, None)
      | Responded resp \<Rightarrow>
          (let status = determineStatus (hr_StatusCode resp) (ExpectedStatusCodes target);
               headers = (hr_Header resp)(''resolved_ip'' \<mapsto> hr_resolvedIP resp);
               headers = (if hr_title resp \<noteq> [] then headers(''title'' \<mapsto> hr_title resp)
                          else headers)
           in (CheckResult0
                 \<lparr>Status := status, ResponseTime := io_http_ms io,
                  Message := ''HTTP '' @ fmt_d (hr_StatusCode resp) @ '' '' @ hr_Status resp,
                  Request := http_request_details target io,
                  Response :=
                    \<lparr>resp_StatusCode = hr_StatusCode resp, resp_Headers = headers,
                     resp_Body = hr_Body resp,
                     resp_ContentLength = hr_ContentLength resp\<rparr>\<rparr>, None)))"

subsection \<open>SSL certificate check\<close>

text \<open>
  The checker first derives \<open>host:port\<close> from the target's address and port (storing
  a port found in the address back into the target when the target has none); the derived
  address is \<open>io_tls_address\<close>.  The model starts at the TLS dial.

  The checker dials with \<open>InsecureSkipVerify: false\<close>, so \<open>tls.DialWithDialer\<close> returns an
  error unless the server's certificate verifies.  Part of that verification (crypto/x509)
  is the validity period: a certificate is rejected when the clock of the verification is
  before its \<open>NotBefore\<close> or after its \<open>NotAfter\<close>.
\<close>

definition x509_outside_validity :: "certificate \<Rightarrow> time \<Rightarrow> bool" where
  "x509_outside_validity c now = (now < NotBefore c \<or> NotAfter c < now)"

definition tls_DialWithDialer :: "probe_io \<Rightarrow> string + certificate list" where
  "tls_DialWithDialer io =
     (case io_tls io of
        TLSDialFailed err \<Rightarrow> Inl err
      | TLSConnected certs \<Rightarrow>
          (case certs of
             [] \<Rightarrow> Inr certs
           | leafCert # _ \<Rightarrow>
               (if x509_outside_validity leafCert (io_verify_now io) then Inl (io_tls_invalid io)
                else Inr certs)))"

definition daysUntilExpiry_of :: "time \<Rightarrow> time \<Rightarrow> int" where
  "daysUntilExpiry_of notAfter now = go_int_of_float (Hours (time_Until notAfter now) / 24)"

definition ssl_status_message :: "int \<Rightarrow> MonitorTarget \<Rightarrow> string \<times> string" where
  "ssl_status_message daysUntilExpiry target =
     (if daysUntilExpiry < 0 then
        (''down'', ''Certificate expired '' @ fmt_d (- daysUntilExpiry) @ '' days ago'')
      else if daysUntilExpiry \<le> SSLCriticalDays target then
        (''critical'',
         ''Certificate expires in '' @ fmt_d daysUntilExpiry @ '' days (CRITICAL)'')
      else if daysUntilExpiry \<le> SSLWarnDays target then
        (''warning'',
         ''Certificate expires in '' @ fmt_d daysUntilExpiry @ '' days (WARNING)'')
      else (''up'', ''Certificate expires in '' @ fmt_d daysUntilExpiry @ '' days''))"

definition certInfo :: "time \<Rightarrow> nat \<times> certificate \<Rightarrow> cert_info" where
  "certInfo now ic =
     \<lparr>ci_index = int (fst ic),
      ci_subject_cn = Subject_CommonName (snd ic),
      ci_issuer_cn = Issuer_CommonName (snd ic),
      ci_serial = SerialNumber (snd ic),
      ci_days_until_expiry = daysUntilExpiry_of (NotAfter (snd ic)) now,
      ci_is_ca = IsCA (snd ic)\<rparr>"

definition ssl_headers :: "certificate \<Rightarrow> nat \<Rightarrow> string \<Rightarrow> (string \<rightharpoonup> string)" where
  "ssl_headers leafCert n chainSummary =
     [''issuer'' \<mapsto> Issuer_CommonName leafCert,
      ''subject'' \<mapsto> Subject_CommonName leafCert,
      ''serial'' \<mapsto> SerialNumber leafCert,
      ''not_before'' \<mapsto> NotBefore_text leafCert,
      ''not_after'' \<mapsto> NotAfter_text leafCert,
      ''chain_count'' \<mapsto> fmt_d (int n),
      ''chain_summary'' \<mapsto> chainSummary]"

definition SSLChecker_Check :: "MonitorTarget \<Rightarrow> probe_io \<Rightarrow> CheckResult \<times> go_error" where
  "SSLChecker_Check target io =
     (case tls_DialWithDialer io of
        Inl err \<Rightarrow>
          (CheckResult0
             \<lparr>Status := ''down'', ResponseTime := io_tls_ms io,
              Message := ''SSL/TLS connection failed: '' @ err,
              Error := Some \<lparr>err_Type = ''ssl_error'', err_Message = err\<rparr>\<rparr>, None)
      | Inr certs \<Rightarrow>
          (case certs of
             [] \<Rightarrow>
               (CheckResult0
                  \<lparr>Status := ''down'', ResponseTime := io_tls_ms io,
                   Message := ''No certificates presented''\<rparr>, None)
           | leafCert # _ \<Rightarrow>
               (let daysUntilExpiry = daysUntilExpiry_of (NotAfter leafCert) (io_now io);
                    sm = ssl_status_message daysUntilExpiry target;
                    chainInfo =
                      (if SSLGetChain target \<and> length certs > 0
                       then map (certInfo (io_now io)) (enumerate 0 certs) else []);
                    data =
                      (if length chainInfo > 0 then [(''certificate_chain'', DChain chainInfo)]
                       else [])
                in (CheckResult0
                      \<lparr>Status := fst sm, ResponseTime := io_tls_ms io,
                       Message := join_lines (snd sm # io_tls_details io),
                       Request :=
                         RequestDetails0\<lparr>req_Method := ''SSL'', req_URL := io_tls_address io\<rparr>,
                       Response :=
                         ResponseDetails0
                           \<lparr>resp_StatusCode := daysUntilExpiry,
                            resp_Headers :=
                              ssl_headers leafCert (length certs) (io_tls_chain_summary io)\<rparr>,
                       Data := data\<rparr>, None))))"

subsection \<open>HTTPS: HTTP and SSL combined (https.go)\<close>

definition leaf_days :: "data_map \<Rightarrow> int option" where
  "leaf_days d =
     (case map_of d ''certificate_chain'' of
        Some (DChain (c # _)) \<Rightarrow> Some (ci_days_until_expiry c)
      | _ \<Rightarrow> None)"

definition copy_data :: "data_map \<Rightarrow> string \<Rightarrow> data_map \<Rightarrow> data_map" where
  "copy_data src k dst = (case map_of src k of Some v \<Rightarrow> data_set dst k v | None \<Rightarrow> dst)"

definition copy_header ::
  "(string \<rightharpoonup> string) \<Rightarrow> string \<Rightarrow> string \<Rightarrow> (string \<rightharpoonup> string) \<Rightarrow> (string \<rightharpoonup> string)" where
  "copy_header src k k' dst = (case src k of Some v \<Rightarrow> dst(k' \<mapsto> v) | None \<Rightarrow> dst)"

definition https_merge :: "CheckResult \<Rightarrow> CheckResult \<Rightarrow> CheckResult" where
  "https_merge sslResult httpResult =
     (let data = copy_data (Data sslResult) ''certificate_chain'' (Data httpResult);
          data = copy_data (Data sslResult) ''certificate_info'' data;
          sh = resp_Headers (Response sslResult);
          h = resp_Headers (Response httpResult);
          h = copy_header sh ''issuer'' ''ssl_issuer'' h;
          h = copy_header sh ''subject'' ''ssl_subject'' h;
          h = copy_header sh ''serial'' ''ssl_serial'' h;
          h = (case leaf_days (Data sslResult) of
                 Some days \<Rightarrow> h(''days_until_expiry'' \<mapsto> fmt_d days)
               | None \<Rightarrow> h);
          r = httpResult\<lparr>Data := data, Response := (Response httpResult)\<lparr>resp_Headers := h\<rparr>\<rparr>
      in if Status sslResult = ''down'' then
           r\<lparr>Status := ''down'',
             Message := Message httpResult @ '' (SSL: '' @ Message sslResult @ '')''\<rparr>
         else r\<lparr>Message := Message httpResult @ '' | SSL: '' @ Message sslResult\<rparr>)"

definition HTTPSChecker_Check :: "MonitorTarget \<Rightarrow> probe_io \<Rightarrow> CheckResult \<times> go_error" where
  "HTTPSChecker_Check target io =
     (let sslResult = (if SSLCheck target then Some (fst (SSLChecker_Check target io)) else None);
          hr = HTTPChecker_Check target io
      in case snd hr of
           Some err \<Rightarrow> (fst hr, Some err)
         | None \<Rightarrow>
             (let httpResult =
                    (case sslResult of
                       Some sr \<Rightarrow> https_merge sr (fst hr)
                     | None \<Rightarrow> fst hr)
              in (httpResult\<lparr>ResponseTime := io_https_ms io\<rparr>, None)))"

subsection \<open>TCP and UDP (tcp.go, udp.go)\<close>

definition TCPChecker_Check :: "MonitorTarget \<Rightarrow> probe_io \<Rightarrow> CheckResult \<times> go_error" where
  "TCPChecker_Check target io =
     (case io_tcp_dial io of
        Some err \<Rightarrow>
          (CheckResult0
             \<lparr>Status := ''down'', ResponseTime := io_tcp_ms io,
              Message := ''TCP connection failed: '' @ err\<rparr>, None)
      | None \<Rightarrow>
          (CheckResult0
             \<lparr>Status := ''up'', ResponseTime := io_tcp_ms io,
              Message := ''TCP connection successful''\<rparr>, None))"

definition UDPChecker_Check :: "MonitorTarget \<Rightarrow> probe_io \<Rightarrow> CheckResult \<times> go_error" where
  "UDPChecker_Check target io =
     (case io_udp_dial io of
        Some err \<Rightarrow>
          (CheckResult0
             \<lparr>Status := ''down'', ResponseTime := io_udp_ms io,
              Message := ''UDP connection failed: '' @ err\<rparr>, None)
      | None \<Rightarrow>
          (CheckResult0
             \<lparr>Status := ''up'', ResponseTime := io_udp_ms io,
              Message := ''UDP connection successful''\<rparr>, None))"

subsection \<open>SMTP (smtp.go)\<close>

definition smtp_failed :: "string \<Rightarrow> string \<Rightarrow> string \<Rightarrow> CheckResult \<times> go_error" where
  "smtp_failed status what err =
     (CheckResult0\<lparr>Status := status, Message := what @ err\<rparr>, Some err)"

definition checkSMTP :: "MonitorTarget \<Rightarrow> smtp_io \<Rightarrow> string \<Rightarrow> CheckResult \<times> go_error" where
  "checkSMTP target io host =
     (case smtp_dial io of
        Some err \<Rightarrow> smtp_failed ''down'' ''SMTP connection failed: '' err
      | None \<Rightarrow>
     if SMTPCheckStartTLS target \<and> \<not> smtp_has_starttls io then
       (CheckResult0\<lparr>Status := ''degraded'', Message := ''STARTTLS not supported by server''\<rparr>,
        Some ''STARTTLS not supported'')
     else
     (case (if SMTPCheckStartTLS target then smtp_starttls io else None) of
        Some err \<Rightarrow> smtp_failed ''degraded'' ''STARTTLS upgrade failed: '' err
      | None \<Rightarrow>
     (case (if SMTPUsername target \<noteq> [] \<and> SMTPPassword target \<noteq> [] then smtp_auth io
            else None) of
        Some err \<Rightarrow> smtp_failed ''down'' ''SMTP authentication failed: '' err
      | None \<Rightarrow>
     (case smtp_mail io of
        Some err \<Rightarrow> smtp_failed ''down'' ''MAIL FROM command failed: '' err
      | None \<Rightarrow>
     (case (if SMTPMailTo target \<noteq> [] then smtp_rcpt io else None) of
        Some err \<Rightarrow> smtp_failed ''degraded'' ''RCPT TO command failed: '' err
      | None \<Rightarrow>
     (case smtp_reset io of
        Some err \<Rightarrow> smtp_failed ''degraded'' ''RSET command failed: '' err
      | None \<Rightarrow>
     (case smtp_quit io of
        Some err \<Rightarrow> smtp_failed ''degraded'' ''QUIT command failed: '' err
      | None \<Rightarrow>
          (CheckResult0
             \<lparr>Status := ''up'',
              Message :=
                ''SMTP server is operational''
                @ (if SMTPUsername target \<noteq> [] then '' (authenticated)'' else [])
                @ (if SMTPCheckStartTLS target then '' (STARTTLS verified)'' else []),
              Data :=
                [(''starttls_supported'', DBool (SMTPCheckStartTLS target)),
                 (''authenticated'', DBool (SMTPUsername target \<noteq> [])),
                 (''host'', DString host)]\<rparr>, None))))))))"

definition checkSMTPS :: "MonitorTarget \<Rightarrow> smtp_io \<Rightarrow> string \<Rightarrow> CheckResult \<times> go_error" where
  "checkSMTPS target io host =
     (case smtp_tls_dial io of
        Some err \<Rightarrow> smtp_failed ''down'' ''SMTPS connection failed: '' err
      | None \<Rightarrow>
     (case smtp_new_client io of
        Some err \<Rightarrow> smtp_failed ''down'' ''SMTPS client creation failed: '' err
      | None \<Rightarrow>
     (case (if SMTPUsername target \<noteq> [] \<and> SMTPPassword target \<noteq> [] then smtp_auth io
            else None) of
        Some err \<Rightarrow> smtp_failed ''down'' ''SMTPS authentication failed: '' err
      | None \<Rightarrow>
     (case smtp_mail io of
        Some err \<Rightarrow> smtp_failed ''down'' ''MAIL FROM command failed: '' err
      | None \<Rightarrow>
     (case (if SMTPMailTo target \<noteq> [] then smtp_rcpt io else None) of
        Some err \<Rightarrow> smtp_failed ''degraded'' ''RCPT TO command failed: '' err
      | None \<Rightarrow>
     (case smtp_reset io of
        Some err \<Rightarrow> smtp_failed ''degraded'' ''RSET command failed: '' err
      | None \<Rightarrow>
          (CheckResult0
             \<lparr>Status := ''up'',
              Message :=
                ''SMTPS server is operational''
                @ (if SMTPUsername target \<noteq> [] then '' (authenticated)'' else []),
              Data :=
                [(''tls'', DBool True),
                 (''authenticated'', DBool (SMTPUsername target \<noteq> [])),
                 (''host'', DString host)]\<rparr>, None)))))))"

definition SMTPChecker_Check :: "MonitorTarget \<Rightarrow> smtp_io \<Rightarrow> CheckResult \<times> go_error" where
  "SMTPChecker_Check target io =
     (case smtp_tcp_dial io of
        Some err \<Rightarrow> smtp_failed ''down'' ''Connection failed: '' err
      | None \<Rightarrow>
          (let r = (if SMTPUseTLS target then checkSMTPS target io (Address target)
                    else checkSMTP target io (Address target))
           in case snd r of
                Some err \<Rightarrow> (fst r, Some err)
              | None \<Rightarrow> ((fst r)\<lparr>ResponseTime := smtp_elapsed_ms io\<rparr>, None)))"

subsection \<open>The checker factory (http.go)\<close>

datatype checker =
  HTTPChecker | HTTPSChecker | TCPChecker | UDPChecker | DNSChecker
| PingCheckerWrapper | SMTPCheckerWrapper | SNMPCheckerWrapper | SSLChecker

definition NewChecker :: "string \<Rightarrow> string + checker" where
  "NewChecker typ =
     (if typ = ''http'' then Inr HTTPChecker
      else if typ = ''https'' then Inr HTTPSChecker
      else if typ = ''tcp'' then Inr TCPChecker
      else if typ = ''udp'' then Inr UDPChecker
      else if typ = ''dns'' then Inr DNSChecker
      else if typ = ''ping'' \<or> typ = ''icmp'' then Inr PingCheckerWrapper
      else if typ = ''smtp'' \<or> typ = ''smtps'' then Inr SMTPCheckerWrapper
      else if typ = ''snmp'' then Inr SNMPCheckerWrapper
      else if typ = ''ssl'' \<or> typ = ''tls'' then Inr SSLChecker
      else Inl (''unsupported monitor type: '' @ typ))"

fun Check :: "checker \<Rightarrow> MonitorTarget \<Rightarrow> probe_io \<Rightarrow> CheckResult \<times> go_error" where
  "Check HTTPChecker target io = HTTPChecker_Check target io"
| "Check HTTPSChecker target io = HTTPSChecker_Check target io"
| "Check TCPChecker target io = TCPChecker_Check target io"
| "Check UDPChecker target io = UDPChecker_Check target io"
| "Check SMTPCheckerWrapper target io = SMTPChecker_Check target (io_smtp io)"
| "Check SSLChecker target io = SSLChecker_Check target io"
| "Check DNSChecker target io = io_other io"
| "Check PingCheckerWrapper target io = io_other io"
| "Check SNMPCheckerWrapper target io = io_other io"

section \<open>Alert manager (internal/alert/alert.go)\<close>

record AlertEvent =
  ev_TargetID :: uint32
  ev_TargetName :: string
  ev_TargetType :: string
  ev_Address :: string
  ev_Status :: string
  ev_ResponseTime :: int
  ev_Message :: string
  ev_Timestamp :: time
  ev_Severity :: string

text \<open>A channel; its \<open>Config\<close> is read only by the functions that send, which are not modelled.\<close>

record AlertChannel =
  ch_ID :: uint32
  ch_Name :: string
  ch_Type :: string
  ch_Enabled :: bool

record AlertCondition =
  DownConsecutiveTimes :: int
  SlowResponseThreshold :: int
  StatusChanged :: bool

record AlertRule =
  rule_ID :: uint32
  rule_Name :: string
  rule_TargetID :: "uint32 option"
  rule_Enabled :: bool
  rule_Severity :: string
  Conditions :: AlertCondition
  Channels :: "uint32 list"
  CooldownSeconds :: int
  LastAlertTime :: "time option"

text \<open>
  The map \<open>rules\<close> is an association list with one entry per key; the loop of
  \<open>ProcessEvent\<close> over the map visits the entries in the list's order (Go leaves the
  order open).
\<close>

record Manager =
  channels :: "uint32 \<rightharpoonup> AlertChannel"
  rules :: "(uint32 \<times> AlertRule) list"
  eventBuffer :: "uint32 \<rightharpoonup> AlertEvent list"

text \<open>
  One call of \<open>sendAlert\<close>: the rule, the event, and the channels whose send function is
  called, in the order of the rule's channel list.
\<close>

record dispatch =
  d_rule :: uint32
  d_event :: AlertEvent
  d_channels :: "uint32 list"

definition NewManager :: Manager where
  "NewManager = \<lparr>channels = Map.empty, rules = [], eventBuffer = Map.empty\<rparr>"

fun rules_put :: "(uint32 \<times> AlertRule) list \<Rightarrow> uint32 \<Rightarrow> AlertRule \<Rightarrow> (uint32 \<times> AlertRule) list" where
  "rules_put [] k r = [(k, r)]"
| "rules_put ((k', r') # rs) k r =
     (if k' = k then (k, r) # rs else (k', r') # rules_put rs k r)"

definition AddChannel :: "Manager \<Rightarrow> AlertChannel \<Rightarrow> Manager" where
  "AddChannel m channel = m\<lparr>channels := (channels m)(ch_ID channel \<mapsto> channel)\<rparr>"

definition RemoveChannel :: "Manager \<Rightarrow> uint32 \<Rightarrow> Manager" where
  "RemoveChannel m cid = m\<lparr>channels := (channels m)(cid := None)\<rparr>"

definition AddRule :: "Manager \<Rightarrow> AlertRule \<Rightarrow> Manager" where
  "AddRule m rule = m\<lparr>rules := rules_put (rules m) (rule_ID rule) rule\<rparr>"

definition RemoveRule :: "Manager \<Rightarrow> uint32 \<Rightarrow> Manager" where
  "RemoveRule m rid = m\<lparr>rules := filter (\<lambda>kr. fst kr \<noteq> rid) (rules m)\<rparr>"

definition events_of :: "Manager \<Rightarrow> uint32 \<Rightarrow> AlertEvent list" where
  "events_of m tid = (case eventBuffer m tid of None \<Rightarrow> [] | Some evs \<Rightarrow> evs)"

definition buffer_event :: "Manager \<Rightarrow> AlertEvent \<Rightarrow> Manager" where
  "buffer_event m event =
     (let evs = events_of m (ev_TargetID event) @ [event];
          evs = (if length evs > 100 then tl evs else evs)
      in m\<lparr>eventBuffer := (eventBuffer m)(ev_TargetID event \<mapsto> evs)\<rparr>)"

text \<open>The loop of \<open>shouldAlert\<close> from the newest event backwards, on the reversed buffer.\<close>

fun count_down :: "AlertEvent list \<Rightarrow> int" where
  "count_down [] = 0"
| "count_down (e # es) = (if ev_Status e = ''down'' then 1 + count_down es else 0)"

definition shouldAlert :: "Manager \<Rightarrow> AlertEvent \<Rightarrow> AlertRule \<Rightarrow> bool" where
  "shouldAlert m event rule =
     (let conditions = Conditions rule;
          events = events_of m (ev_TargetID event)
      in if DownConsecutiveTimes conditions > 0 \<and> ev_Status event = ''down''
            \<and> count_down (rev events) \<ge> DownConsecutiveTimes conditions then True
         else if SlowResponseThreshold conditions > 0
            \<and> ev_ResponseTime event > SlowResponseThreshold conditions then True
         else if StatusChanged conditions \<and> length events \<ge> 2
            \<and> ev_Status (events ! (length events - 2)) \<noteq> ev_Status event then True
         else False)"

definition channel_sends :: "Manager \<Rightarrow> uint32 \<Rightarrow> bool" where
  "channel_sends m channelID =
     (case channels m channelID of
        None \<Rightarrow> False
      | Some channel \<Rightarrow>
          ch_Enabled channel \<and>
          (ch_Type channel = ''email'' \<or> ch_Type channel = ''webhook''
           \<or> ch_Type channel = ''dingtalk'' \<or> ch_Type channel = ''wechat''))"

definition sendAlert :: "Manager \<Rightarrow> AlertEvent \<Rightarrow> AlertRule \<Rightarrow> dispatch" where
  "sendAlert m event rule =
     \<lparr>d_rule = rule_ID rule, d_event = event,
      d_channels = filter (channel_sends m) (Channels rule)\<rparr>"

definition in_cooldown :: "AlertRule \<Rightarrow> time \<Rightarrow> bool" where
  "in_cooldown rule now =
     (CooldownSeconds rule > 0 \<and>
      (case LastAlertTime rule of
         None \<Rightarrow> False
       | Some lastAlert \<Rightarrow> time_Since lastAlert now < wrap_int64 (CooldownSeconds rule * Second)))"

definition applies_to :: "AlertRule \<Rightarrow> AlertEvent \<Rightarrow> bool" where
  "applies_to rule event =
     (case rule_TargetID rule of None \<Rightarrow> True | Some tid \<Rightarrow> tid = ev_TargetID event)"

text \<open>The body of the loop over the rules, for one rule; \<open>m\<close> already holds the event.\<close>

definition process_rule :: "Manager \<Rightarrow> AlertEvent \<Rightarrow> time \<Rightarrow> AlertRule \<Rightarrow> AlertRule \<times> dispatch list" where
  "process_rule m event now rule =
     (if \<not> rule_Enabled rule then (rule, [])
      else if \<not> applies_to rule event then (rule, [])
      else if in_cooldown rule now then (rule, [])
      else if shouldAlert m event rule then
        (rule\<lparr>LastAlertTime := Some now\<rparr>, [sendAlert m event rule])
      else (rule, []))"

fun process_rules ::
  "Manager \<Rightarrow> AlertEvent \<Rightarrow> time \<Rightarrow> (uint32 \<times> AlertRule) list
   \<Rightarrow> (uint32 \<times> AlertRule) list \<times> dispatch list" where
  "process_rules m event now [] = ([], [])"
| "process_rules m event now ((k, rule) # rs) =
     (let (rule', ds) = process_rule m event now rule;
          (rs', ds') = process_rules m event now rs
      in ((k, rule') # rs', ds @ ds'))"

definition ProcessEvent :: "Manager \<Rightarrow> AlertEvent \<Rightarrow> time \<Rightarrow> Manager \<times> dispatch list" where
  "ProcessEvent m event now =
     (let m1 = buffer_event m event;
          (rs, ds) = process_rules m1 event now (rules m1)
      in (m1\<lparr>rules := rs\<rparr>, ds))"

text \<open>
  A run of the manager over a sequence of events, each with the clock reading of its
  call; the result lists every dispatch with that reading.
\<close>

fun run_events :: "Manager \<Rightarrow> (time \<times> AlertEvent) list \<Rightarrow> Manager \<times> (time \<times> dispatch) list" where
  "run_events m [] = (m, [])"
| "run_events m ((now, event) # rest) =
     (let (m1, ds) = ProcessEvent m event now;
          (m2, later) = run_events m1 rest
      in (m2, map (Pair now) ds @ later))"

definition fire_times :: "uint32 \<Rightarrow> (time \<times> dispatch) list \<Rightarrow> time list" where
  "fire_times rid ds = map fst (filter (\<lambda>td. d_rule (snd td) = rid) ds)"

text \<open>
  The association list stands for a Go map filled by \<open>m.rules[rule.ID] = rule\<close>: no
  key occurs twice and every rule is stored under its own id.
\<close>

definition rules_wf :: "(uint32 \<times> AlertRule) list \<Rightarrow> bool" where
  "rules_wf rs = (distinct (map fst rs) \<and> list_all (\<lambda>kr. rule_ID (snd kr) = fst kr) rs)"

section \<open>The store and the result pipeline (service.go)\<close>

text \<open>
  The two tables the pipeline writes.  \<open>monitor_status\<close> holds at most one row per
  target: it is a map from the target id (the column \<open>target_id\<close>) to the rest of the
  row, and the row's own primary key is not modelled;
  \<open>monitor_history\<close> is the list of rows in insertion order.  The stored JSON text of
  \<open>Data\<close> is represented by the value it encodes.  Database calls do not fail in the
  model.
\<close>

record MonitorStatus =
  st_Status :: string
  st_ResponseTime :: int
  st_Message :: string
  st_CheckedAt :: "time option"
  st_UptimePercentage :: int
  st_SSLDaysUntilExpiry :: "int option"
  st_SSLIssuer :: "string option"
  st_SSLSubject :: "string option"
  st_SSLEserial :: "string option"
  st_DNSRecords :: "string option"
  st_ResolvedIP :: "string option"
  st_Data :: "data_map option"

record MonitorHistory =
  h_TargetID :: uint32
  h_Status :: string
  h_ResponseTime :: int
  h_Message :: string
  h_CheckedAt :: time

record store =
  monitor_status :: "uint32 \<rightharpoonup> MonitorStatus"
  monitor_history :: "MonitorHistory list"

definition MonitorStatus0 :: MonitorStatus where
  "MonitorStatus0 =
     \<lparr>st_Status = [], st_ResponseTime = 0, st_Message = [],
      st_CheckedAt = None, st_UptimePercentage = 0, st_SSLDaysUntilExpiry = None,
      st_SSLIssuer = None, st_SSLSubject = None, st_SSLEserial = None,
      st_DNSRecords = None, st_ResolvedIP = None, st_Data = None\<rparr>"

text \<open>The entry of the file log; its request, response and error details are left out.\<close>

record CheckLogEntry =
  le_TargetID :: int
  le_TargetName :: string
  le_Type :: string
  le_Address :: string
  le_Status :: string
  le_ResponseTime :: int
  le_Message :: string

datatype log_line =
  Warn string uint32
| Printf string

text \<open>The fields of \<open>Service\<close>; a buffered channel is its content and its capacity.\<close>

record Service =
  targets :: "uint32 \<rightharpoonup> MonitorTarget"
  ctx_done :: bool
  es_enabled :: bool
  checkQueue :: "MonitorTarget list"
  checkQueue_cap :: nat
  workerPool :: int
  esBuffer :: "(MonitorTarget \<times> CheckResult) list"
  esBuffer_cap :: nat

text \<open>
  The process around the service: the database behind \<open>database.GetDB()\<close>, the
  logger's output, the file log, the goroutines the service has started, and the alert
  manager that the process holds (\<open>alertManager\<close>, an \<open>alert.Manager\<close>; \<open>Service\<close>
  has no field for it).
  \<open>monitor_goroutines\<close> lists the running \<open>monitorTarget\<close> loops, each with the target
  it was started for (every one owns a ticker); \<open>check_goroutines\<close> lists the one-off
  checks started by \<open>TriggerCheck\<close> that have not run yet.  \<open>panicked\<close> records that
  a goroutine has panicked, which ends the process; the step functions below describe the
  process while it runs.
\<close>

record world =
  svc :: Service
  db :: store
  logs :: "log_line list"
  fileLog :: "CheckLogEntry list"
  monitor_goroutines :: "MonitorTarget list"
  check_goroutines :: "MonitorTarget list"
  panicked :: bool
  alertManager :: Manager

text \<open>The four readings of \<open>time.Now()\<close> in \<open>saveResult\<close> and \<open>updateUptimePercentage\<close>.\<close>

record pipeline_clock =
  now_status :: time
  now_history :: time
  now_count :: time
  now_upcount :: time

definition NewService :: "bool \<Rightarrow> Service" where
  "NewService esClient =
     \<lparr>targets = Map.empty, ctx_done = False, es_enabled = esClient,
      checkQueue = [], checkQueue_cap = 1000, workerPool = 100,
      esBuffer = [], esBuffer_cap = 500\<rparr>"

definition new_world :: "bool \<Rightarrow> world" where
  "new_world esClient =
     \<lparr>svc = NewService esClient,
      db = \<lparr>monitor_status = Map.empty, monitor_history = []\<rparr>,
      logs = [], fileLog = [], monitor_goroutines = [], check_goroutines = [],
      panicked = False, alertManager = NewManager\<rparr>"

text \<open>
  \<open>AddTarget\<close> stores the target and starts \<open>monitorTarget\<close> in a goroutine of its
  own.  The goroutine begins with \<open>time.NewTicker(time.Duration(target.Interval) *
  time.Second)\<close>, which panics when the duration is not positive; otherwise it enters
  its loop.
\<close>

definition AddTarget :: "world \<Rightarrow> MonitorTarget \<Rightarrow> world \<times> go_error" where
  "AddTarget w target =
     (let w = w\<lparr>svc := (svc w)\<lparr>targets := (targets (svc w))(ID target \<mapsto> target)\<rparr>\<rparr>
      in if wrap_int64 (Interval target * Second) \<le> 0 then (w\<lparr>panicked := True\<rparr>, None)
         else (w\<lparr>monitor_goroutines := monitor_goroutines w @ [target]\<rparr>, None))"

definition RemoveTarget :: "world \<Rightarrow> uint32 \<Rightarrow> world \<times> go_error" where
  "RemoveTarget w tid =
     (case targets (svc w) tid of
        Some _ \<Rightarrow> (w\<lparr>svc := (svc w)\<lparr>targets := (targets (svc w))(tid := None)\<rparr>\<rparr>, None)
      | None \<Rightarrow> (w, Some ''target not found''))"

definition GetTarget :: "world \<Rightarrow> uint32 \<Rightarrow> MonitorTarget option \<times> go_error" where
  "GetTarget w tid =
     (case targets (svc w) tid of
        None \<Rightarrow> (None, Some ''target not found'')
      | Some target \<Rightarrow> (Some target, None))"

definition TriggerCheck :: "world \<Rightarrow> uint32 \<Rightarrow> world \<times> go_error" where
  "TriggerCheck w targetID =
     (case targets (svc w) targetID of
        None \<Rightarrow> (w, Some ''target not found'')
      | Some target \<Rightarrow> (w\<lparr>check_goroutines := check_goroutines w @ [target]\<rparr>, None))"

text \<open>
  One round of the loop of \<open>monitorTarget\<close> in which the ticker's channel is chosen: the
  inner \<open>select\<close> sends to the queue when it has room and takes the \<open>default\<close> branch
  otherwise.  \<open>i\<close> numbers the goroutine.
\<close>

definition enqueue_check :: "world \<Rightarrow> MonitorTarget \<Rightarrow> world" where
  "enqueue_check w target =
     (if length (checkQueue (svc w)) < checkQueue_cap (svc w) then
        w\<lparr>svc := (svc w)\<lparr>checkQueue := checkQueue (svc w) @ [target]\<rparr>\<rparr>
      else w\<lparr>logs := logs w @ [Warn ''Check queue full, skipping check'' (ID target)]\<rparr>)"

definition monitorTarget_tick :: "world \<Rightarrow> nat \<Rightarrow> world" where
  "monitorTarget_tick w i =
     (if i < length (monitor_goroutines w) then enqueue_check w (monitor_goroutines w ! i)
      else w)"

text \<open>The round in which \<open>ctx.Done()\<close> is chosen: the goroutine returns.\<close>

definition monitorTarget_done :: "world \<Rightarrow> nat \<Rightarrow> world" where
  "monitorTarget_done w i =
     (if ctx_done (svc w) \<and> i < length (monitor_goroutines w) then
        w\<lparr>monitor_goroutines := take i (monitor_goroutines w) @ drop (Suc i) (monitor_goroutines w)\<rparr>
      else w)"

definition countHistory :: "MonitorHistory list \<Rightarrow> uint32 \<Rightarrow> time \<Rightarrow> int" where
  "countHistory hs targetID since =
     int (length (filter (\<lambda>h. h_TargetID h = targetID \<and> h_CheckedAt h \<ge> since) hs))"

definition countHistoryStatus :: "MonitorHistory list \<Rightarrow> uint32 \<Rightarrow> string \<Rightarrow> time \<Rightarrow> int" where
  "countHistoryStatus hs targetID status since =
     int (length (filter (\<lambda>h. h_TargetID h = targetID \<and> h_Status h = status
                              \<and> h_CheckedAt h \<ge> since) hs))"

text \<open>
  \<open>updateUptimePercentage\<close> runs two \<open>COUNT\<close> queries, each with its own reading of the
  clock, and then reads the target's status row, sets the percentage and saves the row
  (\<open>uptime_store\<close>).
\<close>

definition uptime_store :: "store \<Rightarrow> uint32 \<Rightarrow> int \<Rightarrow> int \<Rightarrow> store" where
  "uptime_store d targetID historyCount upCount =
     (case monitor_status d targetID of
        None \<Rightarrow> d
      | Some status \<Rightarrow>
          (let status' =
                 (if historyCount > 0 then
                    status\<lparr>st_UptimePercentage :=
                             wrap_int32 (go_quot (wrap_int64 (upCount * 100)) historyCount)\<rparr>
                  else status\<lparr>st_UptimePercentage := 0\<rparr>)
           in d\<lparr>monitor_status := (monitor_status d)(targetID \<mapsto> status')\<rparr>))"

definition updateUptimePercentage :: "store \<Rightarrow> uint32 \<Rightarrow> time \<Rightarrow> time \<Rightarrow> store" where
  "updateUptimePercentage d targetID now1 now2 =
     (let historyCount = countHistory (monitor_history d) targetID (AddDate_days now1 (- 30));
          upCount =
            countHistoryStatus (monitor_history d) targetID ''up'' (AddDate_days now2 (- 30))
      in uptime_store d targetID historyCount upCount)"

definition ssl_fields :: "CheckResult \<Rightarrow> MonitorStatus \<Rightarrow> MonitorStatus" where
  "ssl_fields result status =
     (let h = resp_Headers (Response result);
          status = (case h ''days_until_expiry'' of
                      Some daysUntilExpiry \<Rightarrow>
                        (case sscanf_d daysUntilExpiry of
                           Some days \<Rightarrow> status\<lparr>st_SSLDaysUntilExpiry := Some days\<rparr>
                         | None \<Rightarrow> status)
                    | None \<Rightarrow> status);
          status = (case h ''issuer'' of
                      Some issuer \<Rightarrow> status\<lparr>st_SSLIssuer := Some issuer\<rparr>
                    | None \<Rightarrow> status);
          status = (case h ''subject'' of
                      Some subject \<Rightarrow> status\<lparr>st_SSLSubject := Some subject\<rparr>
                    | None \<Rightarrow> status);
          status = (case h ''serial'' of
                      Some serial \<Rightarrow> status\<lparr>st_SSLEserial := Some serial\<rparr>
                    | None \<Rightarrow> status)
      in status)"

definition writeFileLog :: "world \<Rightarrow> MonitorTarget \<Rightarrow> CheckResult \<Rightarrow> world" where
  "writeFileLog w target result =
     w\<lparr>fileLog := fileLog w @
          [\<lparr>le_TargetID = uint (ID target), le_TargetName = Name target,
            le_Type = Type target, le_Address = Address target,
            le_Status = Status result, le_ResponseTime = ResponseTime result,
            le_Message = Message result\<rparr>]\<rparr>"

text \<open>
  \<open>saveResult\<close>, in the order of its statements: the row of \<open>monitor_status\<close> is read
  (or started afresh) and filled in (\<open>status_row\<close>), the history record is built
  (\<open>history_row\<close>), both are written (\<open>save_rows\<close> is the function up to here), the
  uptime is recomputed, the result is offered to the buffer of the Elasticsearch writer
  (\<open>offer_es\<close>) and written to the file log.
\<close>

definition status_row ::
  "store \<Rightarrow> MonitorTarget \<Rightarrow> CheckResult \<Rightarrow> pipeline_clock \<Rightarrow> MonitorStatus" where
  "status_row d target result clk =
     (let status = (case monitor_status d (ID target) of
                      Some row \<Rightarrow> row
                    | None \<Rightarrow> MonitorStatus0);
          status = status\<lparr>st_Status := Status result,
                          st_ResponseTime := ResponseTime result,
                          st_Message := Message result,
                          st_CheckedAt := Some (now_status clk)\<rparr>;
          status = (if Type target = ''https'' \<or> Type target = ''ssl'' \<or> Type target = ''tls''
                    then ssl_fields result status else status);
          h = resp_Headers (Response result);
          status = (case h ''resolved_ip'' of
                      Some resolvedIP \<Rightarrow> status\<lparr>st_ResolvedIP := Some resolvedIP\<rparr>
                    | None \<Rightarrow>
                        (case h ''ip'' of
                           Some resolvedIP \<Rightarrow> status\<lparr>st_ResolvedIP := Some resolvedIP\<rparr>
                         | None \<Rightarrow> status));
          status = (if length (Data result) > 0 then status\<lparr>st_Data := Some (Data result)\<rparr>
                    else status);
          status = (if Type target = ''dns'' \<and> resp_Body (Response result) \<noteq> []
                    then status\<lparr>st_DNSRecords := Some (resp_Body (Response result))\<rparr>
                    else status)
      in status)"

definition history_row :: "MonitorTarget \<Rightarrow> CheckResult \<Rightarrow> pipeline_clock \<Rightarrow> MonitorHistory" where
  "history_row target result clk =
     \<lparr>h_TargetID = ID target, h_Status = Status result,
      h_ResponseTime = ResponseTime result, h_Message = Message result,
      h_CheckedAt = now_history clk\<rparr>"

definition offer_es :: "world \<Rightarrow> MonitorTarget \<Rightarrow> CheckResult \<Rightarrow> world" where
  "offer_es w target result =
     (if length (esBuffer (svc w)) < esBuffer_cap (svc w) then
        w\<lparr>svc := (svc w)\<lparr>esBuffer := esBuffer (svc w) @ [(target, result)]\<rparr>\<rparr>
      else w\<lparr>logs := logs w @ [Warn ''ES buffer full, dropping log'' (ID target)]\<rparr>)"

definition save_rows :: "store \<Rightarrow> MonitorTarget \<Rightarrow> CheckResult \<Rightarrow> pipeline_clock \<Rightarrow> store" where
  "save_rows d target result clk =
     (let status = status_row d target result clk;
          history = history_row target result clk;
          d = d\<lparr>monitor_status := (monitor_status d)(ID target \<mapsto> status)\<rparr>
      in d\<lparr>monitor_history := monitor_history d @ [history]\<rparr>)"

definition saveResult :: "world \<Rightarrow> MonitorTarget \<Rightarrow> CheckResult \<Rightarrow> pipeline_clock \<Rightarrow> world" where
  "saveResult w target result clk =
     (let d = save_rows (db w) target result clk;
          d = updateUptimePercentage d (ID target) (now_count clk) (now_upcount clk);
          w = w\<lparr>db := d\<rparr>;
          w = offer_es w target result
      in writeFileLog w target result)"

text \<open>One round of \<open>esWriter\<close>: a task is taken from the buffer.  The write to
  Elasticsearch itself is outside the model.\<close>

definition esWriter_step :: "world \<Rightarrow> world" where
  "esWriter_step w = w\<lparr>svc := (svc w)\<lparr>esBuffer := tl (esBuffer (svc w))\<rparr>\<rparr>"

definition checkTarget :: "world \<Rightarrow> MonitorTarget \<Rightarrow> probe_io \<Rightarrow> pipeline_clock \<Rightarrow> world" where
  "checkTarget w target io clk =
     (case NewChecker (Type target) of
        Inl err \<Rightarrow>
          w\<lparr>logs := logs w @
               [Printf (''Failed to create checker for target '' @ fmt_d (uint (ID target))
                        @ '': '' @ err)]\<rparr>
      | Inr checker \<Rightarrow>
          (case Check checker target io of
             (result, Some err) \<Rightarrow>
               w\<lparr>logs := logs w @
                    [Printf (''Check failed for target '' @ fmt_d (uint (ID target))
                             @ '': '' @ err)]\<rparr>
           | (result, None) \<Rightarrow> saveResult w target result clk))"

text \<open>
  One round of \<open>checkWorker\<close> in which a target is received from the queue, and the run
  of a one-off check started by \<open>TriggerCheck\<close>.
\<close>

definition checkWorker_step :: "world \<Rightarrow> probe_io \<Rightarrow> pipeline_clock \<Rightarrow> world" where
  "checkWorker_step w io clk =
     (case checkQueue (svc w) of
        [] \<Rightarrow> w
      | target # rest \<Rightarrow> checkTarget (w\<lparr>svc := (svc w)\<lparr>checkQueue := rest\<rparr>\<rparr>) target io clk)"

definition triggered_check_step :: "world \<Rightarrow> probe_io \<Rightarrow> pipeline_clock \<Rightarrow> world" where
  "triggered_check_step w io clk =
     (case check_goroutines w of
        [] \<Rightarrow> w
      | target # rest \<Rightarrow> checkTarget (w\<lparr>check_goroutines := rest\<rparr>) target io clk)"

section \<open>DNS resolver transports (pkg/dns/resolver.go)\<close>

record DNSQueryResult =
  A :: "string list"
  AAAA :: "string list"
  CNAME :: "string list"
  MX :: "string list"
  TXT :: "string list"
  NS :: "string list"

record Resolver =
  Server :: string
  ServerType :: string
  Timeout :: duration

text \<open>A connection: a TCP connection to an address, or TLS over a connection, with the
  server name the handshake verifies.\<close>

datatype conn =
  TCPConn string
| TLSConn conn string

datatype wire_action =
  Dial string string
| Write conn "byte list"
| Close conn

datatype dns_outcome =
  DNSPanic
| DNSError string
| DNSAnswer DNSQueryResult

text \<open>
  What the library and the server answer in one lookup: the error of the dial, the packed
  query (\<open>msg.Pack()\<close>), the error of the write, the bytes the server sends until it
  closes, and the decoding of a response (\<open>Unpack\<close> followed by \<open>parseDNSResponse\<close>).
\<close>

record dns_io =
  dns_dial :: go_error
  dns_pack :: "string + byte list"
  dns_write :: go_error
  dns_incoming :: "byte list"
  dns_unpack :: "byte list \<Rightarrow> string + DNSQueryResult"

text \<open>\<open>net.SplitHostPort\<close> and \<open>net.JoinHostPort\<close> of Go's standard library.\<close>

definition last_index_byte :: "string \<Rightarrow> char \<Rightarrow> nat option" where
  "last_index_byte s c =
     (case index_byte (rev s) c of None \<Rightarrow> None | Some i \<Rightarrow> Some (length s - 1 - i))"

definition SplitHostPort :: "string \<Rightarrow> string + string \<times> string" where
  "SplitHostPort hostport =
     (case last_index_byte hostport (CHR '':'') of
        None \<Rightarrow> Inl ''missing port in address''
      | Some i \<Rightarrow>
          if hostport ! 0 = CHR ''['' then
            (case index_byte hostport (CHR '']'') of
               None \<Rightarrow> Inl ''missing ] in address''
             | Some e \<Rightarrow>
                 if e + 1 = length hostport then Inl ''missing port in address''
                 else if e + 1 = i then
                   (if index_byte (drop 1 hostport) (CHR ''['') \<noteq> None
                    then Inl ''unexpected [ in address''
                    else if index_byte (drop (e + 1) hostport) (CHR '']'') \<noteq> None
                    then Inl ''unexpected ] in address''
                    else Inr (take (e - 1) (drop 1 hostport), drop (i + 1) hostport))
                 else if hostport ! (e + 1) = CHR '':'' then Inl ''too many colons in address''
                 else Inl ''missing port in address'')
          else
            (let host = take i hostport in
             if index_byte host (CHR '':'') \<noteq> None then Inl ''too many colons in address''
             else if index_byte hostport (CHR ''['') \<noteq> None then Inl ''unexpected [ in address''
             else if index_byte hostport (CHR '']'') \<noteq> None then Inl ''unexpected ] in address''
             else Inr (host, drop (i + 1) hostport)))"

definition JoinHostPort :: "string \<Rightarrow> string \<Rightarrow> string" where
  "JoinHostPort host port =
     (if index_byte host (CHR '':'') \<noteq> None then ''['' @ host @ '']:'' @ port
      else host @ '':'' @ port)"

text \<open>
  \<open>tlsClient\<close> as the source has it: it returns the connection it was given and no
  error.
\<close>

definition tlsClient :: "conn \<Rightarrow> string \<Rightarrow> conn \<times> go_error" where
  "tlsClient c server = (c, None)"

text \<open>The two-byte length prefix: \<open>byte(len(buf) >> 8)\<close> and \<open>byte(len(buf))\<close>.\<close>

definition lengthPrefix :: "byte list \<Rightarrow> byte list" where
  "lengthPrefix buf = [of_nat (length buf div 256), of_nat (length buf)]"

text \<open>
  The exchange on an open connection, shared by the TCP and the TLS transport in the
  source as two copies of the same statements: pack, write prefix and message, read the
  prefix, read the message, decode.  \<open>dnsmessage.MustNewName\<close> panics on a name longer
  than 255 bytes.
\<close>

definition read_response :: "dns_io \<Rightarrow> dns_outcome" where
  "read_response io =
     (let inc = dns_incoming io in
      if length inc < 2 then
        DNSError (''read length failed: '' @ (if inc = [] then ''EOF'' else ''unexpected EOF''))
      else
        (let len = unat (inc ! 0) * 256 + unat (inc ! 1);
             rest = drop 2 inc
         in if length rest < len then
              DNSError (''read response failed: ''
                        @ (if rest = [] then ''EOF'' else ''unexpected EOF''))
            else
              (case dns_unpack io (take len rest) of
                 Inl err \<Rightarrow> DNSError (''unpack response failed: '' @ err)
               | Inr res \<Rightarrow> DNSAnswer res)))"

definition exchange :: "conn \<Rightarrow> string \<Rightarrow> dns_io \<Rightarrow> dns_outcome \<times> wire_action list" where
  "exchange c domain io =
     (if length (domain @ ''.'') > 255 then (DNSPanic, [Close c])
      else
        (case dns_pack io of
           Inl err \<Rightarrow> (DNSError (''pack message failed: '' @ err), [Close c])
         | Inr buf \<Rightarrow>
             (case dns_write io of
                Some err \<Rightarrow>
                  (DNSError (''send query failed: '' @ err),
                   [Write c (lengthPrefix buf @ buf), Close c])
              | None \<Rightarrow> (read_response io, [Write c (lengthPrefix buf @ buf), Close c]))))"

definition lookupTCP :: "Resolver \<Rightarrow> string \<Rightarrow> dns_io \<Rightarrow> dns_outcome \<times> wire_action list" where
  "lookupTCP r domain io =
     (if length (domain @ ''.'') > 255 then (DNSPanic, [])
      else
        (case dns_dial io of
           Some err \<Rightarrow> (DNSError (''TCP dial failed: '' @ err), [Dial ''tcp'' (Server r)])
         | None \<Rightarrow>
             (let x = exchange (TCPConn (Server r)) domain io
              in (fst x, Dial ''tcp'' (Server r) # snd x))))"

definition dot_address :: "Resolver \<Rightarrow> string \<times> string" where
  "dot_address r =
     (case SplitHostPort (Server r) of
        Inl err \<Rightarrow> (Server r, ''853'')
      | Inr hp \<Rightarrow> hp)"

definition lookupDoT :: "Resolver \<Rightarrow> string \<Rightarrow> dns_io \<Rightarrow> dns_outcome \<times> wire_action list" where
  "lookupDoT r domain io =
     (let host = fst (dot_address r);
          port = snd (dot_address r);
          serverAddr = JoinHostPort host port
      in case dns_dial io of
           Some err \<Rightarrow> (DNSError (''TCP dial failed: '' @ err), [Dial ''tcp'' serverAddr])
         | None \<Rightarrow>
             (case tlsClient (TCPConn serverAddr) host of
                (tlsConn, Some err) \<Rightarrow>
                  (DNSError (''TLS handshake failed: '' @ err),
                   [Dial ''tcp'' serverAddr, Close (TCPConn serverAddr)])
              | (tlsConn, None) \<Rightarrow>
                  (let x = exchange tlsConn domain io
                   in (fst x, Dial ''tcp'' serverAddr # snd x))))"

section \<open>Concrete inputs\<close>

text \<open>The zero values of the records, from which the examples below are built.\<close>

definition MonitorTarget0 :: MonitorTarget where
  "MonitorTarget0 =
     \<lparr>ID = 0, Name = [], Type = [], Address = [], Port = 0, Interval = 0, Enabled = False,
      HTTPMethod = [], HTTPBody = [], ExpectedStatusCodes = [],
      SMTPUsername = [], SMTPPassword = [], SMTPUseTLS = False, SMTPMailFrom = [],
      SMTPMailTo = [], SMTPCheckStartTLS = False,
      SSLWarnDays = 0, SSLCriticalDays = 0, SSLCheck = False, SSLGetChain = False\<rparr>"

definition ok_response :: http_response where
  "ok_response =
     \<lparr>hr_StatusCode = 200, hr_Status = ''200 OK'', hr_Header = Map.empty, hr_Body = [],
      hr_ContentLength = 0, hr_resolvedIP = ''93.184.216.34'', hr_title = []\<rparr>"

definition smtp_ok :: smtp_io where
  "smtp_ok =
     \<lparr>smtp_tcp_dial = None, smtp_dial = None, smtp_has_starttls = True,
      smtp_starttls = None, smtp_tls_dial = None, smtp_new_client = None,
      smtp_auth = None, smtp_mail = None, smtp_rcpt = None, smtp_reset = None,
      smtp_quit = None, smtp_elapsed_ms = 12\<rparr>"

definition day :: "int \<Rightarrow> time" where
  "day n = n * 24 * Hour"

text \<open>A world in which every connection succeeds and the web server answers 200; the
  clock stands at day 100.\<close>

definition io_ok :: probe_io where
  "io_ok =
     \<lparr>io_http = Responded ok_response, io_http_sent = Map.empty, io_http_ms = 40,
      io_https_ms = 95, io_tls = TLSConnected [], io_verify_now = day 100,
      io_tls_invalid = ''x509: certificate has expired or is not yet valid'',
      io_tls_address = ''example.com:443'',
      io_tls_details = [], io_tls_chain_summary = [], io_tls_ms = 50,
      io_now = day 100,
      io_tcp_dial = None, io_tcp_ms = 3, io_udp_dial = None, io_udp_ms = 1,
      io_smtp = smtp_ok, io_other = (CheckResult0\<lparr>Status := ''up''\<rparr>, None)\<rparr>"

definition clk_at :: "time \<Rightarrow> pipeline_clock" where
  "clk_at t = \<lparr>now_status = t, now_history = t, now_count = t, now_upcount = t\<rparr>"


text \<open>An HTTPS target with the certificate check switched on.\<close>

definition https_target :: MonitorTarget where
  "https_target =
     MonitorTarget0
       \<lparr>ID := 7, Name := ''shop'', Type := ''https'', Address := ''example.com'',
        Interval := 60, Enabled := True, SSLWarnDays := 30, SSLCriticalDays := 7,
        SSLCheck := True, SSLGetChain := True\<rparr>"

text \<open>
  A store with a history: for target 7 one \<open>down\<close> and one \<open>up\<close> record of the last
  days and one \<open>up\<close> record that is 40 days old, and a record of another target, which
  has a status row.  The clock stands at day 100.
\<close>

definition history_example :: "MonitorHistory list" where
  "history_example =
     [\<lparr>h_TargetID = 7, h_Status = ''up'', h_ResponseTime = 80, h_Message = [],
       h_CheckedAt = day 60\<rparr>,
      \<lparr>h_TargetID = 7, h_Status = ''down'', h_ResponseTime = 0, h_Message = [],
       h_CheckedAt = day 95\<rparr>,
      \<lparr>h_TargetID = 7, h_Status = ''up'', h_ResponseTime = 75, h_Message = [],
       h_CheckedAt = day 96\<rparr>,
      \<lparr>h_TargetID = 8, h_Status = ''down'', h_ResponseTime = 0, h_Message = [],
       h_CheckedAt = day 99\<rparr>]"

definition world_example :: world where
  "world_example =
     (new_world False)
       \<lparr>db := \<lparr>monitor_status =
                  [8 \<mapsto> MonitorStatus0\<lparr>st_Status := ''down'', st_UptimePercentage := 50\<rparr>],
                monitor_history = history_example\<rparr>\<rparr>"


definition tcp_target :: MonitorTarget where
  "tcp_target =
     MonitorTarget0
       \<lparr>ID := 3, Name := ''db'', Type := ''tcp'', Address := ''10.0.0.5'', Port := 5432,
        Interval := 1, Enabled := True\<rparr>"



definition world_full :: world where
  "world_full =
     (let w = fst (AddTarget (new_world False) tcp_target)
      in w\<lparr>svc := (svc w)\<lparr>checkQueue := replicate 1000 https_target\<rparr>\<rparr>)"

text \<open>
  Scenario S4: a rule on consecutive failures with threshold 2 for target 7, and
  \<open>down\<close> events of that target at 0 s, 60 s, 120 s and 400 s.
\<close>

definition down_event :: "time \<Rightarrow> AlertEvent" where
  "down_event t =
     \<lparr>ev_TargetID = 7, ev_TargetName = ''shop'', ev_TargetType = ''https'',
      ev_Address = ''example.com'', ev_Status = ''down'', ev_ResponseTime = 0,
      ev_Message = ''Request failed'', ev_Timestamp = t, ev_Severity = ''critical''\<rparr>"

definition failure_rule :: "int \<Rightarrow> AlertRule" where
  "failure_rule cooldown =
     \<lparr>rule_ID = 1, rule_Name = ''two failures'', rule_TargetID = Some 7,
      rule_Enabled = True, rule_Severity = ''critical'',
      Conditions = \<lparr>DownConsecutiveTimes = 2, SlowResponseThreshold = 0,
                    StatusChanged = False\<rparr>,
      Channels = [], CooldownSeconds = cooldown, LastAlertTime = None\<rparr>"

definition s4_trace :: "(time \<times> AlertEvent) list" where
  "s4_trace =
     [(0, down_event 0), (60 * Second, down_event (60 * Second)),
      (120 * Second, down_event (120 * Second)), (400 * Second, down_event (400 * Second))]"

text \<open>
  A process whose alert manager holds the rule of scenario S4, a failed check result, and
  the manager after one \<open>down\<close> event of target 7.
\<close>

definition world_s4 :: world where
  "world_s4 = (new_world False)\<lparr>alertManager := AddRule NewManager (failure_rule 300)\<rparr>"

definition down_result :: CheckResult where
  "down_result =
     CheckResult0
       \<lparr>Status := ''down'', ResponseTime := 30000, Message := ''Request failed: timeout'',
        Error := Some \<lparr>err_Type = ''network_error'', err_Message = ''timeout''\<rparr>\<rparr>"

definition manager_one_down :: Manager where
  "manager_one_down =
     fst (ProcessEvent (AddRule NewManager (failure_rule 300)) (down_event 0) 0)"

text \<open>
  An SMTP target and a world that refuses TCP connections; a one-certificate chain whose
  leaf expires at a given instant; a resolver for DNS over TLS whose server address has no
  port, and a lookup in which the packed query is four bytes long.
\<close>

definition smtp_target :: MonitorTarget where
  "smtp_target =
     MonitorTarget0
       \<lparr>ID := 9, Name := ''mail'', Type := ''smtp'', Address := ''mail.example.com'',
        Port := 25, Interval := 60, Enabled := True\<rparr>"

definition io_refused :: probe_io where
  "io_refused =
     io_ok\<lparr>io_tcp_dial := Some ''connection refused'',
           io_smtp := smtp_ok\<lparr>smtp_tcp_dial := Some ''connection refused''\<rparr>\<rparr>"

definition leaf_cert :: "time \<Rightarrow> certificate" where
  "leaf_cert notAfter =
     \<lparr>Subject_CommonName = ''example.com'', Issuer_CommonName = ''Example CA'',
      SerialNumber = ''1A2B'', NotBefore_text = ''2026-01-01T00:00:00Z'',
      NotAfter_text = ''2027-01-01T00:00:00Z'', NotBefore = day 0, NotAfter = notAfter,
      IsCA = False\<rparr>"

definition io_cert :: "time \<Rightarrow> probe_io" where
  "io_cert notAfter = io_ok\<lparr>io_tls := TLSConnected [leaf_cert notAfter]\<rparr>"

definition dot_resolver :: Resolver where
  "dot_resolver = \<lparr>Server = ''1.1.1.1'', ServerType = ''dot'', Timeout = 10 * Second\<rparr>"

definition dns_io_example :: dns_io where
  "dns_io_example =
     \<lparr>dns_dial = None, dns_pack = Inr [0xAB, 0xCD, 1, 0], dns_write = None,
      dns_incoming = [], dns_unpack = (\<lambda>bs. Inl ''short'')\<rparr>"

section \<open>Status classification of the HTTP and HTTPS probes\<close>

lemma determineStatus_loop_up:
  "(determineStatus_loop c codes = ''up'') = (c \<in> set codes)"
  by (induction codes) auto

lemma determineStatus_up:
  "(determineStatus c codes = ''up'') =
     (if codes = [] then 200 \<le> c \<and> c < 300 else c \<in> set codes)"
  by (simp add: determineStatus_def determineStatus_loop_up)

lemma determineStatus_loop_cases:
  "determineStatus_loop c codes = ''up'' \<or> determineStatus_loop c codes = ''down''"
  by (induction codes) auto

lemma determineStatus_cases:
  "determineStatus c codes = ''up'' \<or> determineStatus c codes = ''down''"
  using determineStatus_loop_cases by (simp add: determineStatus_def)

lemma HTTPChecker_Check_status:
  "Status (fst (HTTPChecker_Check target (io\<lparr>io_http := Responded resp\<rparr>))) =
     determineStatus (hr_StatusCode resp) (ExpectedStatusCodes target)"
  by (simp add: HTTPChecker_Check_def Let_def)

lemma HTTPChecker_Check_no_error: "snd (HTTPChecker_Check target io) = None"
  by (simp add: HTTPChecker_Check_def Let_def split: http_outcome.splits)

lemma https_merge_status:
  "Status (https_merge sr hr) = (if Status sr = ''down'' then ''down'' else Status hr)"
  by (simp add: https_merge_def Let_def)

lemma SSLChecker_Check_io_http:
  "SSLChecker_Check target (io\<lparr>io_http := x\<rparr>) = SSLChecker_Check target io"
  by (simp add: SSLChecker_Check_def tls_DialWithDialer_def
        split: tls_outcome.splits list.splits)

lemma HTTPSChecker_Check_status:
  "Status (fst (HTTPSChecker_Check target (io\<lparr>io_http := Responded resp\<rparr>))) =
     (if SSLCheck target \<and> Status (fst (SSLChecker_Check target io)) = ''down'' then ''down''
      else determineStatus (hr_StatusCode resp) (ExpectedStatusCodes target))"
  using HTTPChecker_Check_no_error [of target "io\<lparr>io_http := Responded resp\<rparr>"]
  by (simp add: HTTPSChecker_Check_def Let_def https_merge_status HTTPChecker_Check_status
        SSLChecker_Check_io_http split: option.splits)

text \<open>
  Claim C10, as amended.  Whatever else the world answers, when the web server responds
  with status code \<open>c\<close>: the HTTP checker (which serves targets of kind http and https)
  reports \<open>up\<close> or \<open>down\<close>, and \<open>up\<close> exactly when \<open>c\<close> is in the 2xx range for an
  empty set of expected codes, and exactly when \<open>c\<close> is one of the expected codes
  otherwise.  The HTTPS checker reports the status of its HTTP check, unless the
  certificate check is switched on and its result is \<open>down\<close>: then it reports \<open>down\<close>
  whatever \<open>c\<close> is.  With no expected codes 299 is \<open>up\<close> and 300 is \<open>down\<close>; with the
  codes 200 and 301, 301 is \<open>up\<close> and 302 is \<open>down\<close>.
\<close>

theorem status_classification:
  "((Status (fst (HTTPChecker_Check target (io\<lparr>io_http := Responded resp\<rparr>))) = ''up'') =
      (if ExpectedStatusCodes target = []
       then 200 \<le> hr_StatusCode resp \<and> hr_StatusCode resp < 300
       else hr_StatusCode resp \<in> set (ExpectedStatusCodes target))
    \<and> (Status (fst (HTTPChecker_Check target (io\<lparr>io_http := Responded resp\<rparr>))) = ''up''
       \<or> Status (fst (HTTPChecker_Check target (io\<lparr>io_http := Responded resp\<rparr>))) = ''down''))
   \<and> Status (fst (HTTPSChecker_Check target (io\<lparr>io_http := Responded resp\<rparr>))) =
       (if SSLCheck target \<and> Status (fst (SSLChecker_Check target io)) = ''down'' then ''down''
        else Status (fst (HTTPChecker_Check target (io\<lparr>io_http := Responded resp\<rparr>))))
   \<and> (determineStatus 299 [] = ''up'' \<and> determineStatus 300 [] = ''down''
      \<and> determineStatus 301 [200, 301] = ''up'' \<and> determineStatus 302 [200, 301] = ''down'')"
  (is "?A \<and> ?B \<and> ?C")
proof -
  have a: ?A
    using determineStatus_cases [of "hr_StatusCode resp" "ExpectedStatusCodes target"]
    by (simp only: HTTPChecker_Check_status determineStatus_up)
  have b: ?B
    by (simp only: HTTPSChecker_Check_status HTTPChecker_Check_status)
  have c: ?C
    by (simp add: determineStatus_def)
  show ?thesis by (rule conjI [OF a conjI [OF b c]])
qed

text \<open>
  The claim as stated fails for an HTTPS probe: the target expects no particular codes,
  the web server answers 200, and the TLS dial of the certificate check times out.  The
  probe's status is \<open>down\<close>.
\<close>

theorem https_down_despite_200:
  "io_http (io_ok\<lparr>io_tls := TLSDialFailed ''i/o timeout''\<rparr>) = Responded ok_response
   \<and> hr_StatusCode ok_response = 200
   \<and> ExpectedStatusCodes https_target = []
   \<and> Status (fst (HTTPSChecker_Check https_target
                    (io_ok\<lparr>io_tls := TLSDialFailed ''i/o timeout''\<rparr>))) = ''down''"
  by (simp add: HTTPSChecker_Check_def HTTPChecker_Check_def SSLChecker_Check_def
        tls_DialWithDialer_def
        https_merge_def Let_def https_target_def MonitorTarget0_def io_ok_def
        ok_response_def CheckResult0_def copy_data_def copy_header_def leaf_days_def
        ResponseDetails0_def RequestDetails0_def determineStatus_def)

section \<open>Rolling uptime\<close>









lemma updateUptimePercentage_history:
  "monitor_history (updateUptimePercentage d tid n1 n2) = monitor_history d"
  by (simp add: updateUptimePercentage_def uptime_store_def Let_def split: option.splits)


lemma db_saveResult:
  "db (saveResult w target result clk) =
     updateUptimePercentage
       ((db w)\<lparr>monitor_status :=
                 (monitor_status (db w))(ID target \<mapsto> status_row (db w) target result clk),
               monitor_history := monitor_history (db w) @ [history_row target result clk]\<rparr>)
       (ID target) (now_count clk) (now_upcount clk)"
  by (simp add: saveResult_def save_rows_def Let_def writeFileLog_def offer_es_def)

lemma history_saveResult:
  "monitor_history (db (saveResult w target result clk)) =
     monitor_history (db w) @ [history_row target result clk]"
  by (simp add: db_saveResult updateUptimePercentage_history)

lemma ssl_fields_basic:
  "st_Status (ssl_fields r s) = st_Status s \<and> st_ResponseTime (ssl_fields r s) = st_ResponseTime s
   \<and> st_Message (ssl_fields r s) = st_Message s \<and> st_CheckedAt (ssl_fields r s) = st_CheckedAt s"
  by (simp add: ssl_fields_def Let_def split: option.splits)

lemma status_row_basic:
  "st_Status (status_row d target result clk) = Status result
   \<and> st_ResponseTime (status_row d target result clk) = ResponseTime result
   \<and> st_Message (status_row d target result clk) = Message result
   \<and> st_CheckedAt (status_row d target result clk) = Some (now_status clk)"
  by (simp add: status_row_def Let_def ssl_fields_basic split: option.splits)

lemma saveResult_row:
  "monitor_status (db (saveResult w target result clk)) (ID target) =
     Some ((status_row (db w) target result clk)
             \<lparr>st_UptimePercentage :=
                (let hs = monitor_history (db w) @ [history_row target result clk];
                     historyCount =
                       countHistory hs (ID target) (AddDate_days (now_count clk) (- 30));
                     upCount =
                       countHistoryStatus hs (ID target) ''up''
                         (AddDate_days (now_upcount clk) (- 30))
                 in if historyCount > 0
                    then wrap_int32 (go_quot (wrap_int64 (upCount * 100)) historyCount)
                    else 0)\<rparr>)"
  by (simp add: db_saveResult updateUptimePercentage_def uptime_store_def Let_def)








section \<open>Ticks and the bounded check queue\<close>

lemma enqueue_check_frame:
  "db (enqueue_check w t) = db w \<and> fileLog (enqueue_check w t) = fileLog w
   \<and> esBuffer (svc (enqueue_check w t)) = esBuffer (svc w)
   \<and> monitor_goroutines (enqueue_check w t) = monitor_goroutines w
   \<and> checkQueue_cap (svc (enqueue_check w t)) = checkQueue_cap (svc w)"
  by (simp add: enqueue_check_def)

text \<open>
  Claim C8.  The queue of a new service has capacity 1000.  A tick of a running timer
  always completes: when the queue has room the target is appended to it and nothing is
  logged; when the queue is full the queue stays as it is and one warning is logged for
  the target.  In both cases the store (status and history), the file log and the buffer
  of the Elasticsearch writer are untouched and the timer's goroutine keeps running, so a
  later tick finds the queue as the workers have left it.
\<close>

theorem tick_enqueue:
  assumes "i < length (monitor_goroutines w)"
  shows "checkQueue_cap (NewService es) = 1000
     \<and> (let target = monitor_goroutines w ! i; w' = monitorTarget_tick w i in
          (if length (checkQueue (svc w)) < checkQueue_cap (svc w)
           then checkQueue (svc w') = checkQueue (svc w) @ [target] \<and> logs w' = logs w
           else checkQueue (svc w') = checkQueue (svc w)
                \<and> logs w' = logs w @ [Warn ''Check queue full, skipping check'' (ID target)])
          \<and> db w' = db w \<and> fileLog w' = fileLog w \<and> esBuffer (svc w') = esBuffer (svc w)
          \<and> monitor_goroutines w' = monitor_goroutines w)"
  using assms
  by (simp add: NewService_def monitorTarget_tick_def Let_def enqueue_check_frame)
     (simp add: enqueue_check_def)

lemma saveResult_frame:
  "checkQueue (svc (saveResult w t r clk)) = checkQueue (svc w)
   \<and> checkQueue_cap (svc (saveResult w t r clk)) = checkQueue_cap (svc w)
   \<and> monitor_goroutines (saveResult w t r clk) = monitor_goroutines w"
  by (simp add: saveResult_def Let_def writeFileLog_def offer_es_def)

lemma checkTarget_frame:
  "checkQueue (svc (checkTarget w t io clk)) = checkQueue (svc w)
   \<and> checkQueue_cap (svc (checkTarget w t io clk)) = checkQueue_cap (svc w)
   \<and> monitor_goroutines (checkTarget w t io clk) = monitor_goroutines w"
  by (simp add: checkTarget_def saveResult_frame split: sum.splits prod.splits option.splits)

lemma world_full_facts:
  "monitor_goroutines world_full = [tcp_target]"
  "length (checkQueue (svc world_full)) = 1000"
  "checkQueue_cap (svc world_full) = 1000"
  "logs world_full = []"
  by (simp_all add: world_full_def AddTarget_def new_world_def NewService_def Let_def
        tcp_target_def MonitorTarget0_def wrap_int64_def Second_def)

text \<open>
  With 1000 entries queued, a tick of the TCP target is dropped with one warning and the
  store is unchanged; after a worker has taken one entry, the next tick is enqueued.
\<close>

theorem tick_enqueue_witness:
  "0 < length (monitor_goroutines world_full)
   \<and> length (checkQueue (svc world_full)) = 1000
   \<and> checkQueue (svc (monitorTarget_tick world_full 0)) = checkQueue (svc world_full)
   \<and> logs (monitorTarget_tick world_full 0) = [Warn ''Check queue full, skipping check'' 3]
   \<and> db (monitorTarget_tick world_full 0) = db world_full
   \<and> length (checkQueue (svc (monitorTarget_tick
               (checkWorker_step (monitorTarget_tick world_full 0) io_ok (clk_at (day 100))) 0)))
       = 1000
   \<and> last (checkQueue (svc (monitorTarget_tick
               (checkWorker_step (monitorTarget_tick world_full 0) io_ok (clk_at (day 100))) 0)))
       = tcp_target"
proof -
  have h: "0 < length (monitor_goroutines world_full)"
    by (simp add: world_full_facts)
  note t = tick_enqueue [OF h, of False]
  have a: "checkQueue (svc (monitorTarget_tick world_full 0)) = checkQueue (svc world_full)
   \<and> logs (monitorTarget_tick world_full 0) = [Warn ''Check queue full, skipping check'' 3]
   \<and> db (monitorTarget_tick world_full 0) = db world_full"
    using t by (simp add: Let_def world_full_facts tcp_target_def)
  let ?w1 = "monitorTarget_tick world_full 0"
  let ?w2 = "checkWorker_step ?w1 io_ok (clk_at (day 100))"
  have r: "replicate 1000 https_target = https_target # replicate 999 https_target"
  proof -
    have "(1000::nat) = Suc 999" by simp
    then show ?thesis by (simp only: replicate_Suc)
  qed
  have q1: "checkQueue (svc ?w1) = https_target # replicate 999 https_target"
    using a by (simp add: world_full_def Let_def r)
  have g1: "monitor_goroutines ?w1 = [tcp_target]" "checkQueue_cap (svc ?w1) = 1000"
    by (simp_all add: monitorTarget_tick_def enqueue_check_frame world_full_facts)
  have w2: "checkQueue (svc ?w2) = replicate 999 https_target"
       "monitor_goroutines ?w2 = [tcp_target]" "checkQueue_cap (svc ?w2) = 1000"
    by (simp_all add: checkWorker_step_def q1 checkTarget_frame g1)
  have h2: "0 < length (monitor_goroutines ?w2)"
    by (simp add: w2)
  have b: "checkQueue (svc (monitorTarget_tick ?w2 0)) = replicate 999 https_target @ [tcp_target]"
    using tick_enqueue [OF h2, of False] by (simp add: Let_def w2)
  show ?thesis
    using h a by (simp add: b world_full_facts)
qed

section \<open>Cooldown of alert rules\<close>

lemma process_rule_cases:
  "process_rule m e now r = (r, []) \<or>
   (process_rule m e now r = (r\<lparr>LastAlertTime := Some now\<rparr>, [sendAlert m e r])
    \<and> \<not> in_cooldown r now)"
  by (simp add: process_rule_def)

lemma process_rule_fields:
  "rule_ID (fst (process_rule m e now r)) = rule_ID r"
  "CooldownSeconds (fst (process_rule m e now r)) = CooldownSeconds r"
  using process_rule_cases [of m e now r] by auto

lemma process_rule_d_rule:
  "d \<in> set (snd (process_rule m e now r)) \<Longrightarrow> d_rule d = rule_ID r"
  using process_rule_cases [of m e now r] by (auto simp: sendAlert_def)

lemma process_rules_keys:
  "map fst (fst (process_rules m e now rs)) = map fst rs"
  by (induction rs) (auto split: prod.splits)

lemma process_rules_wf:
  "rules_wf rs \<Longrightarrow> rules_wf (fst (process_rules m e now rs))"
proof (induction rs)
  case Nil
  then show ?case by (simp add: rules_wf_def)
next
  case (Cons kr rs)
  obtain k r where kr: "kr = (k, r)" by (cases kr)
  from Cons.prems have wf: "rules_wf rs" and k: "k \<notin> fst ` set rs" and rid: "rule_ID r = k"
    by (auto simp: rules_wf_def kr)
  obtain r' ds where pr: "process_rule m e now r = (r', ds)"
    by (cases "process_rule m e now r")
  obtain rs' ds' where prs: "process_rules m e now rs = (rs', ds')"
    by (cases "process_rules m e now rs")
  from Cons.IH [OF wf] have ih: "rules_wf rs'"
    by (simp add: prs)
  have keys: "map fst rs' = map fst rs"
    using process_rules_keys [of m e now rs] by (simp add: prs)
  have k': "k \<notin> set (map fst rs')"
    using k by (simp add: keys)
  have rid': "rule_ID r' = k"
    using process_rule_fields(1) [of m e now r] rid by (simp add: pr)
  show ?case
    using ih k' rid' by (simp add: kr pr prs rules_wf_def)
qed

lemma process_rules_map_of:
  "map_of (fst (process_rules m e now rs)) k =
     map_option (\<lambda>r. fst (process_rule m e now r)) (map_of rs k)"
  by (induction rs) (auto split: prod.splits)

lemma process_rules_dispatches:
  assumes "rules_wf rs"
  shows "filter (\<lambda>d. d_rule d = rid) (snd (process_rules m e now rs)) =
           (case map_of rs rid of None \<Rightarrow> [] | Some r \<Rightarrow> snd (process_rule m e now r))"
  using assms
proof (induction rs)
  case Nil
  then show ?case by simp
next
  case (Cons kr rs)
  obtain k r where kr: "kr = (k, r)" by (cases kr)
  from Cons.prems have wf: "rules_wf rs" and k: "k \<notin> fst ` set rs" and rk: "rule_ID r = k"
    by (auto simp: rules_wf_def kr)
  note ih = Cons.IH [OF wf]
  have here: "filter (\<lambda>d. d_rule d = rid) (snd (process_rule m e now r)) =
                (if k = rid then snd (process_rule m e now r) else [])"
    using process_rule_d_rule [of _ m e now r] rk
    by (auto simp: filter_empty_conv filter_id_conv)
  have none: "k = rid \<Longrightarrow> map_of rs rid = None"
    using k by (simp add: map_of_eq_None_iff)
  show ?case
    using ih here none
    by (auto simp: kr split: prod.splits)
qed

lemma not_in_cooldown_gap:
  assumes "\<not> in_cooldown r now" and "0 < CooldownSeconds r"
      and "CooldownSeconds r * Second < 2 ^ 63" and "LastAlertTime r = Some l"
  shows "CooldownSeconds r * Second \<le> now - l"
proof (rule ccontr)
  assume "\<not> CooldownSeconds r * Second \<le> now - l"
  then have lt: "now - l < CooldownSeconds r * Second" by simp
  have pos: "0 < CooldownSeconds r * Second"
    using assms(2) by (simp add: Second_def)
  have w: "wrap_int64 (CooldownSeconds r * Second) = CooldownSeconds r * Second"
    using pos assms(3) by (simp add: wrap_int64_def)
  have "time_Since l now < CooldownSeconds r * Second"
    using lt pos assms(3)
    by (simp add: time_Since_def time_Sub_def maxDuration_def minDuration_def min_def max_def)
  then have "in_cooldown r now"
    using assms(2,4) by (simp add: in_cooldown_def w)
  with assms(1) show False by simp
qed


lemma rules_buffer_event: "rules (buffer_event m e) = rules m"
  by (simp add: buffer_event_def Let_def)

lemma ProcessEvent_rules:
  "rules (fst (ProcessEvent m e now)) = fst (process_rules (buffer_event m e) e now (rules m))"
  by (simp add: ProcessEvent_def Let_def rules_buffer_event split: prod.splits)

lemma ProcessEvent_dispatches:
  "snd (ProcessEvent m e now) = snd (process_rules (buffer_event m e) e now (rules m))"
  by (simp add: ProcessEvent_def Let_def rules_buffer_event split: prod.splits)

lemma fire_times_append:
  "fire_times rid (xs @ ys) = fire_times rid xs @ fire_times rid ys"
  by (simp add: fire_times_def)

lemma fire_times_now:
  "fire_times rid (map (Pair now) ds) =
     map (\<lambda>d. now) (filter (\<lambda>d. d_rule d = rid) ds)"
  by (induction ds) (auto simp: fire_times_def)

lemma run_events_Cons:
  "snd (run_events m ((now, e) # rest)) =
     map (Pair now) (snd (ProcessEvent m e now)) @ snd (run_events (fst (ProcessEvent m e now)) rest)"
  by (simp add: Let_def split: prod.splits)

lemma run_spaced:
  assumes "rules_wf (rules m)" and "map_of (rules m) rid = Some r"
      and "0 < CooldownSeconds r" and "CooldownSeconds r * Second < 2 ^ 63"
  shows "sorted_wrt (\<lambda>t t'. CooldownSeconds r * Second \<le> t' - t)
           (fire_times rid (snd (run_events m trace)))
         \<and> (\<forall>l. LastAlertTime r = Some l \<longrightarrow>
               (\<forall>t \<in> set (fire_times rid (snd (run_events m trace))).
                  CooldownSeconds r * Second \<le> t - l))"
  using assms
proof (induction trace arbitrary: m r)
  case Nil
  then show ?case by (simp add: fire_times_def)
next
  case (Cons ne rest)
  obtain now e where ne: "ne = (now, e)" by (cases ne)
  let ?m0 = "buffer_event m e"
  let ?m1 = "fst (ProcessEvent m e now)"
  let ?r1 = "fst (process_rule ?m0 e now r)"
  let ?c = "CooldownSeconds r * Second"
  let ?ts' = "fire_times rid (snd (run_events ?m1 rest))"
  have wf1: "rules_wf (rules ?m1)"
    using Cons.prems(1) by (simp add: ProcessEvent_rules process_rules_wf)
  have r1: "map_of (rules ?m1) rid = Some ?r1"
    using Cons.prems(2) by (simp add: ProcessEvent_rules process_rules_map_of)
  have c1: "CooldownSeconds ?r1 = CooldownSeconds r"
    by (rule process_rule_fields)
  from Cons.IH [OF wf1 r1] Cons.prems(3,4)
  have ih: "sorted_wrt (\<lambda>t t'. ?c \<le> t' - t) ?ts'"
    and ih2: "\<And>l t. LastAlertTime ?r1 = Some l \<Longrightarrow> t \<in> set ?ts' \<Longrightarrow> ?c \<le> t - l"
    by (simp_all add: c1)
  have here: "filter (\<lambda>d. d_rule d = rid) (snd (ProcessEvent m e now)) =
                snd (process_rule ?m0 e now r)"
    using process_rules_dispatches [OF Cons.prems(1), of rid ?m0 e now] Cons.prems(2)
    by (simp add: ProcessEvent_dispatches)
  have ts: "fire_times rid (snd (run_events m (ne # rest))) =
              map (\<lambda>d. now) (snd (process_rule ?m0 e now r)) @ ?ts'"
    by (simp only: ne run_events_Cons fire_times_append fire_times_now here)
  from process_rule_cases [of ?m0 e now r]
  show ?case
  proof
    assume quiet: "process_rule ?m0 e now r = (r, [])"
    then show ?thesis
      using ih ih2 by (simp add: ts)
  next
    assume "process_rule ?m0 e now r = (r\<lparr>LastAlertTime := Some now\<rparr>, [sendAlert ?m0 e r])
              \<and> \<not> in_cooldown r now"
    then have fired: "process_rule ?m0 e now r =
                        (r\<lparr>LastAlertTime := Some now\<rparr>, [sendAlert ?m0 e r])"
      and cool: "\<not> in_cooldown r now" by simp_all
    have after: "\<And>t. t \<in> set ?ts' \<Longrightarrow> ?c \<le> t - now"
      using ih2 [of now] by (simp add: fired)
    have pos: "0 < ?c"
      using Cons.prems(3) by (simp add: Second_def)
    have before: "\<And>l. LastAlertTime r = Some l \<Longrightarrow> ?c \<le> now - l"
      using not_in_cooldown_gap [OF cool Cons.prems(3,4)] by simp
    have "sorted_wrt (\<lambda>t t'. ?c \<le> t' - t) (now # ?ts')"
      using ih after by simp
    moreover have "\<forall>l. LastAlertTime r = Some l \<longrightarrow> (\<forall>t \<in> set (now # ?ts'). ?c \<le> t - l)"
    proof (intro allI impI ballI)
      fix l t
      assume l: "LastAlertTime r = Some l" and t: "t \<in> set (now # ?ts')"
      show "?c \<le> t - l"
      proof (cases "t = now")
        case True
        then show ?thesis using before [OF l] by simp
      next
        case False
        then have "t \<in> set ?ts'" using t by simp
        then have "?c \<le> t - now" by (rule after)
        with before [OF l] pos show ?thesis by linarith
      qed
    qed
    ultimately show ?thesis
      by (simp add: ts fired)
  qed
qed


lemma in_cooldown_within:
  assumes "0 < CooldownSeconds r" and "CooldownSeconds r * Second < 2 ^ 63"
      and "LastAlertTime r = Some l" and "now - l < CooldownSeconds r * Second"
  shows "in_cooldown r now"
proof -
  have pos: "0 < CooldownSeconds r * Second"
    using assms(1) by (simp add: Second_def)
  have w: "wrap_int64 (CooldownSeconds r * Second) = CooldownSeconds r * Second"
    using pos assms(2) by (simp add: wrap_int64_def)
  have "time_Since l now < CooldownSeconds r * Second"
    using assms(4) pos assms(2)
    by (simp add: time_Since_def time_Sub_def maxDuration_def minDuration_def min_def max_def)
  then show ?thesis
    using assms(1,3) by (simp add: in_cooldown_def w)
qed

lemma cooldown_bound:
  "c \<le> 9223372036 \<Longrightarrow> c * Second < 2 ^ 63"
  by (simp add: Second_def)

text \<open>
  Claim C7, as amended.  Take a rule of the manager with a cooldown between 1 and
  9223372036 seconds (the cooldowns whose nanoseconds fit Go's \<open>Duration\<close>).  Over any
  sequence of events, every two dispatches of the rule lie at least the cooldown apart;
  and once the rule has fired at \<open>l\<close>, an event whose call reads the clock less than
  the cooldown after \<open>l\<close> causes no dispatch of the rule and leaves the rule as it is,
  whatever its conditions say.
\<close>

theorem cooldown_spacing:
  assumes wf: "rules_wf (rules m)"
      and rule: "map_of (rules m) rid = Some rule"
      and pos: "0 < CooldownSeconds rule"
      and range: "CooldownSeconds rule \<le> 9223372036"
  shows "sorted_wrt (\<lambda>t t'. CooldownSeconds rule * Second \<le> t' - t)
           (fire_times rid (snd (run_events m trace)))
         \<and> (\<forall>l now event.
               LastAlertTime rule = Some l \<and> now - l < CooldownSeconds rule * Second \<longrightarrow>
               filter (\<lambda>d. d_rule d = rid) (snd (ProcessEvent m event now)) = []
               \<and> map_of (rules (fst (ProcessEvent m event now))) rid = Some rule)"
proof (intro conjI allI impI)
  note b = cooldown_bound [OF range]
  show "sorted_wrt (\<lambda>t t'. CooldownSeconds rule * Second \<le> t' - t)
           (fire_times rid (snd (run_events m trace)))"
    using run_spaced [OF wf rule pos b] by simp
  fix l now event
  assume a: "LastAlertTime rule = Some l \<and> now - l < CooldownSeconds rule * Second"
  then have "in_cooldown rule now"
    using in_cooldown_within [OF pos b] by simp
  then have quiet: "process_rule (buffer_event m event) event now rule = (rule, [])"
    by (simp add: process_rule_def)
  show "filter (\<lambda>d. d_rule d = rid) (snd (ProcessEvent m event now)) = []"
    using process_rules_dispatches [OF wf, of rid "buffer_event m event" event now] rule
    by (simp add: ProcessEvent_dispatches quiet)
  show "map_of (rules (fst (ProcessEvent m event now))) rid = Some rule"
    using rule by (simp add: ProcessEvent_rules process_rules_map_of quiet)
qed

lemma rules_put_keys: "set (map fst (rules_put rs k r)) = insert k (set (map fst rs))"
proof (induction rs)
  case Nil
  then show ?case by simp
next
  case (Cons kr rs)
  obtain k' r' where kr: "kr = (k', r')" by (cases kr)
  show ?case
  proof (cases "k' = k")
    case True
    then show ?thesis by (simp add: kr)
  next
    case False
    then show ?thesis using Cons.IH by (simp add: kr insert_commute)
  qed
qed

lemma rules_put_wf:
  assumes "rules_wf rs" and "rule_ID r = k"
  shows "rules_wf (rules_put rs k r)"
  using assms
proof (induction rs)
  case Nil
  then show ?case by (simp add: rules_wf_def)
next
  case (Cons kr rs)
  obtain k' r' where kr: "kr = (k', r')" by (cases kr)
  from Cons.prems have wf: "rules_wf rs" and k': "k' \<notin> set (map fst rs)"
    and rk: "rule_ID r' = k'"
    by (simp_all add: rules_wf_def kr)
  from Cons.IH [OF wf Cons.prems(2)] have ih: "rules_wf (rules_put rs k r)" .
  show ?case
  proof (cases "k' = k")
    case True
    then show ?thesis
      using wf k' Cons.prems(2) by (simp add: kr rules_wf_def)
  next
    case False
    then have "k' \<notin> set (map fst (rules_put rs k r))"
      using k' by (simp only: rules_put_keys) simp
    then show ?thesis
      using ih rk False by (simp add: kr rules_wf_def)
  qed
qed

text \<open>Every manager built by \<open>NewManager\<close>, \<open>AddRule\<close>, \<open>RemoveRule\<close> and
  \<open>ProcessEvent\<close> keeps its rules well-formed.\<close>

lemma rules_wf_NewManager: "rules_wf (rules NewManager)"
  by (simp add: NewManager_def rules_wf_def)

lemma rules_wf_AddRule: "rules_wf (rules m) \<Longrightarrow> rules_wf (rules (AddRule m rule))"
  by (simp add: AddRule_def rules_put_wf)

lemma rules_wf_RemoveRule: "rules_wf (rules m) \<Longrightarrow> rules_wf (rules (RemoveRule m rid))"
  by (simp add: RemoveRule_def rules_wf_def distinct_map_filter list_all_iff)

lemma rules_wf_ProcessEvent:
  "rules_wf (rules m) \<Longrightarrow> rules_wf (rules (fst (ProcessEvent m e now)))"
  by (simp add: ProcessEvent_rules process_rules_wf)

text \<open>
  Scenario S4 with a cooldown of 300 s: the rule fires at the second failure (60 s), not
  at the third (120 s, inside the window), and again at 400 s.
\<close>

theorem cooldown_spacing_witness:
  "rules_wf (rules (AddRule NewManager (failure_rule 300)))
   \<and> map_of (rules (AddRule NewManager (failure_rule 300))) 1 = Some (failure_rule 300)
   \<and> 0 < CooldownSeconds (failure_rule 300)
   \<and> CooldownSeconds (failure_rule 300) \<le> 9223372036
   \<and> sorted_wrt (\<lambda>t t'. CooldownSeconds (failure_rule 300) * Second \<le> t' - t)
        (fire_times 1 (snd (run_events (AddRule NewManager (failure_rule 300)) s4_trace)))
   \<and> fire_times 1 (snd (run_events (AddRule NewManager (failure_rule 300)) s4_trace))
       = [60 * Second, 400 * Second]
   \<and> fire_times 1 (snd (run_events (AddRule NewManager (failure_rule 300)) (take 3 s4_trace)))
       = [60 * Second]"
proof -
  let ?m = "AddRule NewManager (failure_rule 300)"
  have wf: "rules_wf (rules ?m)"
    by (intro rules_wf_AddRule rules_wf_NewManager)
  have rule: "map_of (rules ?m) 1 = Some (failure_rule 300)"
    by (simp add: AddRule_def NewManager_def failure_rule_def)
  have pos: "0 < CooldownSeconds (failure_rule 300)"
    by (simp add: failure_rule_def)
  have range: "CooldownSeconds (failure_rule 300) \<le> 9223372036"
    by (simp add: failure_rule_def)
  note sp = conjunct1 [OF cooldown_spacing [OF wf rule pos range, of s4_trace]]
  have run: "fire_times 1 (snd (run_events ?m s4_trace)) = [60 * Second, 400 * Second]"
    by (simp add: s4_trace_def AddRule_def NewManager_def failure_rule_def down_event_def
        ProcessEvent_def buffer_event_def events_of_def process_rule_def applies_to_def
        in_cooldown_def shouldAlert_def sendAlert_def fire_times_def Let_def
        time_Since_def time_Sub_def maxDuration_def minDuration_def wrap_int64_def Second_def)
  have run3: "fire_times 1 (snd (run_events ?m (take 3 s4_trace))) = [60 * Second]"
    by (simp add: s4_trace_def AddRule_def NewManager_def failure_rule_def down_event_def
        ProcessEvent_def buffer_event_def events_of_def process_rule_def applies_to_def
        in_cooldown_def shouldAlert_def sendAlert_def fire_times_def Let_def
        time_Since_def time_Sub_def maxDuration_def minDuration_def wrap_int64_def Second_def)
  show ?thesis
    by (intro conjI wf rule pos range sp run run3)
qed

text \<open>
  The claim as stated fails for a cooldown whose nanoseconds do not fit an \<open>int64\<close>: with
  \<open>cooldown_seconds = 9223372037\<close> the product with \<open>time.Second\<close> wraps to a negative
  duration, the cooldown test never holds, and the rule fires at 1 s and again at 2 s.
\<close>

theorem cooldown_overflow_fires_twice:
  "0 < CooldownSeconds (failure_rule 9223372037)
   \<and> fire_times 1 (snd (run_events (AddRule NewManager (failure_rule 9223372037))
         [(0, down_event 0), (Second, down_event Second),
          (2 * Second, down_event (2 * Second))]))
       = [Second, 2 * Second]"
  by (simp add: AddRule_def NewManager_def failure_rule_def down_event_def
        ProcessEvent_def buffer_event_def events_of_def process_rule_def applies_to_def
        in_cooldown_def shouldAlert_def sendAlert_def fire_times_def Let_def
        time_Since_def time_Sub_def maxDuration_def minDuration_def wrap_int64_def Second_def)

section \<open>The result pipeline and the alert manager\<close>

lemma updateUptimePercentage_fields:
  assumes "monitor_status d tid = Some row"
  shows "\<exists>u. monitor_status (updateUptimePercentage d tid n1 n2) tid
               = Some (row\<lparr>st_UptimePercentage := u\<rparr>)"
  using assms by (auto simp: updateUptimePercentage_def uptime_store_def Let_def)

lemma saveResult_status:
  "\<exists>u. monitor_status (db (saveResult w target result clk)) (ID target) =
          Some ((status_row (db w) target result clk)\<lparr>st_UptimePercentage := u\<rparr>)"
  by (simp add: db_saveResult updateUptimePercentage_fields)

lemma saveResult_sinks:
  "fileLog (saveResult w target result clk) =
     fileLog w @ [\<lparr>le_TargetID = uint (ID target), le_TargetName = Name target,
                   le_Type = Type target, le_Address = Address target,
                   le_Status = Status result, le_ResponseTime = ResponseTime result,
                   le_Message = Message result\<rparr>]
   \<and> esBuffer (svc (saveResult w target result clk)) =
       (if length (esBuffer (svc w)) < esBuffer_cap (svc w)
        then esBuffer (svc w) @ [(target, result)] else esBuffer (svc w))"
  by (simp add: saveResult_def Let_def writeFileLog_def offer_es_def)

lemma events_of_buffer_event:
  "events_of (buffer_event m e) (ev_TargetID e) =
     (if length (events_of m (ev_TargetID e)) \<ge> 100
      then tl (events_of m (ev_TargetID e) @ [e]) else events_of m (ev_TargetID e) @ [e])"
  by (simp add: buffer_event_def events_of_def Let_def)

lemma events_of_ProcessEvent:
  "events_of (fst (ProcessEvent m e now)) tid = events_of (buffer_event m e) tid"
  by (simp add: ProcessEvent_def Let_def events_of_def split: prod.splits)

lemma last_buffer_event:
  "last (events_of (buffer_event m e) (ev_TargetID e)) = e"
  by (cases "events_of m (ev_TargetID e)") (simp_all add: events_of_buffer_event)

lemma length_buffer_event:
  "length (events_of m (ev_TargetID e)) \<le> 100 \<Longrightarrow>
   length (events_of (buffer_event m e) (ev_TargetID e)) \<le> 100"
  by (simp add: events_of_buffer_event)

lemma process_rule_eq:
  "process_rule m e now r =
     (if rule_Enabled r \<and> applies_to r e \<and> \<not> in_cooldown r now \<and> shouldAlert m e r
      then (r\<lparr>LastAlertTime := Some now\<rparr>, [sendAlert m e r]) else (r, []))"
  by (simp add: process_rule_def)

lemma saveResult_alertManager:
  "alertManager (saveResult w target result clk) = alertManager w"
  by (simp add: saveResult_def Let_def writeFileLog_def offer_es_def)

text \<open>
  Claim C1, as amended.  \<open>saveResult\<close>, run for a target and a result, leaves the alert
  manager of the process as it is: nothing is appended to its event buffers and no rule
  is evaluated.  It does write the target's status row with the result's status, response
  time and message and the time of the check, and with the uptime percentage recomputed
  from the history that includes the new record (as the code computes it, in \<open>int64\<close>
  and \<open>int32\<close>); it appends the history record; it appends the result to the buffer of
  the Elasticsearch writer when the buffer has room (and drops it with a warning in the
  log otherwise); and it appends the entry of the result to the file log.  When \<open>ProcessEvent\<close> is called with
  an event, the event becomes the newest entry of its target's buffer, the oldest entry
  being dropped when the buffer already held 100 events, and each rule of the manager is
  evaluated: the rule is dispatched exactly when it is enabled, applies to the event's
  target, is not cooling down and its condition holds on the buffer that includes the
  event.
\<close>

theorem pipeline_and_alert_engine:
  assumes wf: "rules_wf (rules m)" and rule: "map_of (rules m) rid = Some r"
  shows "alertManager (saveResult w target result clk) = alertManager w
     \<and> (\<exists>row. monitor_status (db (saveResult w target result clk)) (ID target) = Some row
              \<and> st_Status row = Status result \<and> st_ResponseTime row = ResponseTime result
              \<and> st_Message row = Message result \<and> st_CheckedAt row = Some (now_status clk)
              \<and> st_UptimePercentage row =
                  (let hs = monitor_history (db (saveResult w target result clk));
                       historyCount =
                         countHistory hs (ID target) (AddDate_days (now_count clk) (- 30));
                       upCount =
                         countHistoryStatus hs (ID target) ''up''
                           (AddDate_days (now_upcount clk) (- 30))
                   in if historyCount > 0
                      then wrap_int32 (go_quot (wrap_int64 (upCount * 100)) historyCount)
                      else 0)
              \<and> row = (status_row (db w) target result clk)
                        \<lparr>st_UptimePercentage := st_UptimePercentage row\<rparr>)
     \<and> monitor_history (db (saveResult w target result clk)) =
         monitor_history (db w) @
           [\<lparr>h_TargetID = ID target, h_Status = Status result,
             h_ResponseTime = ResponseTime result, h_Message = Message result,
             h_CheckedAt = now_history clk\<rparr>]
     \<and> esBuffer (svc (saveResult w target result clk)) =
         (if length (esBuffer (svc w)) < esBuffer_cap (svc w)
          then esBuffer (svc w) @ [(target, result)] else esBuffer (svc w))
     \<and> logs (saveResult w target result clk) =
         (if length (esBuffer (svc w)) < esBuffer_cap (svc w) then logs w
          else logs w @ [Warn ''ES buffer full, dropping log'' (ID target)])
     \<and> fileLog (saveResult w target result clk) =
         fileLog w @ [\<lparr>le_TargetID = uint (ID target), le_TargetName = Name target,
                       le_Type = Type target, le_Address = Address target,
                       le_Status = Status result, le_ResponseTime = ResponseTime result,
                       le_Message = Message result\<rparr>]
     \<and> last (events_of (fst (ProcessEvent m e now)) (ev_TargetID e)) = e
     \<and> events_of (fst (ProcessEvent m e now)) (ev_TargetID e) =
         (if length (events_of m (ev_TargetID e)) \<ge> 100
          then tl (events_of m (ev_TargetID e) @ [e]) else events_of m (ev_TargetID e) @ [e])
     \<and> filter (\<lambda>d. d_rule d = rid) (snd (ProcessEvent m e now)) =
         (if rule_Enabled r \<and> applies_to r e \<and> \<not> in_cooldown r now
             \<and> shouldAlert (buffer_event m e) e r
          then [sendAlert (buffer_event m e) e r] else [])"
proof (intro conjI)
  show "alertManager (saveResult w target result clk) = alertManager w"
    by (rule saveResult_alertManager)
  show "\<exists>row. monitor_status (db (saveResult w target result clk)) (ID target) = Some row
              \<and> st_Status row = Status result \<and> st_ResponseTime row = ResponseTime result
              \<and> st_Message row = Message result \<and> st_CheckedAt row = Some (now_status clk)
              \<and> st_UptimePercentage row =
                  (let hs = monitor_history (db (saveResult w target result clk));
                       historyCount =
                         countHistory hs (ID target) (AddDate_days (now_count clk) (- 30));
                       upCount =
                         countHistoryStatus hs (ID target) ''up''
                           (AddDate_days (now_upcount clk) (- 30))
                   in if historyCount > 0
                      then wrap_int32 (go_quot (wrap_int64 (upCount * 100)) historyCount)
                      else 0)
              \<and> row = (status_row (db w) target result clk)
                        \<lparr>st_UptimePercentage := st_UptimePercentage row\<rparr>"
    by (simp add: saveResult_row history_saveResult status_row_basic)
  show "monitor_history (db (saveResult w target result clk)) =
         monitor_history (db w) @
           [\<lparr>h_TargetID = ID target, h_Status = Status result,
             h_ResponseTime = ResponseTime result, h_Message = Message result,
             h_CheckedAt = now_history clk\<rparr>]"
    by (simp add: history_saveResult history_row_def)
  show "esBuffer (svc (saveResult w target result clk)) =
         (if length (esBuffer (svc w)) < esBuffer_cap (svc w)
          then esBuffer (svc w) @ [(target, result)] else esBuffer (svc w))"
    by (simp add: saveResult_sinks)
  show "logs (saveResult w target result clk) =
         (if length (esBuffer (svc w)) < esBuffer_cap (svc w) then logs w
          else logs w @ [Warn ''ES buffer full, dropping log'' (ID target)])"
    by (simp add: saveResult_def Let_def writeFileLog_def offer_es_def)
  show "fileLog (saveResult w target result clk) =
         fileLog w @ [\<lparr>le_TargetID = uint (ID target), le_TargetName = Name target,
                       le_Type = Type target, le_Address = Address target,
                       le_Status = Status result, le_ResponseTime = ResponseTime result,
                       le_Message = Message result\<rparr>]"
    by (simp add: saveResult_sinks)
  show "last (events_of (fst (ProcessEvent m e now)) (ev_TargetID e)) = e"
    by (simp add: events_of_ProcessEvent last_buffer_event)
  show "events_of (fst (ProcessEvent m e now)) (ev_TargetID e) =
         (if length (events_of m (ev_TargetID e)) \<ge> 100
          then tl (events_of m (ev_TargetID e) @ [e]) else events_of m (ev_TargetID e) @ [e])"
    by (simp add: events_of_ProcessEvent events_of_buffer_event)
  show "filter (\<lambda>d. d_rule d = rid) (snd (ProcessEvent m e now)) =
         (if rule_Enabled r \<and> applies_to r e \<and> \<not> in_cooldown r now
             \<and> shouldAlert (buffer_event m e) e r
          then [sendAlert (buffer_event m e) e r] else [])"
    using process_rules_dispatches [OF wf, of rid "buffer_event m e" e now] rule
    by (simp add: ProcessEvent_dispatches process_rule_eq)
qed

text \<open>
  The claim as stated fails: after \<open>saveResult\<close> has processed two consecutive \<open>down\<close>
  results of target 7 (both are in the history), the manager's buffer for the target is
  empty and its rule on two consecutive failures is as it was, never fired.
\<close>

theorem pipeline_skips_alert_engine:
  "events_of (alertManager (saveResult
       (saveResult world_s4 https_target down_result (clk_at (day 100)))
       https_target down_result (clk_at (day 100 + 60 * Second)))) (ID https_target) = []
   \<and> rules (alertManager (saveResult
       (saveResult world_s4 https_target down_result (clk_at (day 100)))
       https_target down_result (clk_at (day 100 + 60 * Second))))
      = [(1, failure_rule 300)]
   \<and> map h_Status (monitor_history (db (saveResult
       (saveResult world_s4 https_target down_result (clk_at (day 100)))
       https_target down_result (clk_at (day 100 + 60 * Second))))) = [''down'', ''down'']"
  by (simp add: saveResult_alertManager world_s4_def history_saveResult new_world_def
        events_of_def AddRule_def NewManager_def failure_rule_def history_row_def
        down_result_def CheckResult0_def)

lemma manager_one_down_eq:
  "manager_one_down =
     \<lparr>channels = Map.empty, rules = [(1, failure_rule 300)],
      eventBuffer = [7 \<mapsto> [down_event 0]]\<rparr>"
  by (simp add: manager_one_down_def AddRule_def NewManager_def failure_rule_def down_event_def
        ProcessEvent_def buffer_event_def events_of_def process_rule_def applies_to_def
        in_cooldown_def shouldAlert_def Let_def)

text \<open>
  The second \<open>down\<close> event of scenario S4, given to \<open>ProcessEvent\<close> directly: it is
  buffered behind the first and the rule is dispatched; \<open>saveResult\<close> in a process that
  holds the rule leaves the manager untouched.
\<close>

theorem pipeline_and_alert_engine_witness:
  "rules_wf (rules manager_one_down)
   \<and> map_of (rules manager_one_down) 1 = Some (failure_rule 300)
   \<and> alertManager (saveResult world_s4 https_target down_result (clk_at (day 100)))
       = alertManager world_s4
   \<and> events_of (fst (ProcessEvent manager_one_down (down_event (60 * Second)) (60 * Second))) 7
       = [down_event 0, down_event (60 * Second)]
   \<and> map d_rule (filter (\<lambda>d. d_rule d = 1)
         (snd (ProcessEvent manager_one_down (down_event (60 * Second)) (60 * Second)))) = [1]"
proof -
  let ?e = "down_event (60 * Second)"
  have wf: "rules_wf (rules manager_one_down)"
    unfolding manager_one_down_def
    by (intro rules_wf_ProcessEvent rules_wf_AddRule rules_wf_NewManager)
  have rule: "map_of (rules manager_one_down) 1 = Some (failure_rule 300)"
    by (simp add: manager_one_down_eq)
  note t = pipeline_and_alert_engine [OF wf rule, of world_s4 https_target down_result
             "clk_at (day 100)" ?e "60 * Second"]
  from t have a: "alertManager (saveResult world_s4 https_target down_result (clk_at (day 100)))
       = alertManager world_s4"
    by (elim conjE)
  have tid: "ev_TargetID ?e = 7"
    by (simp add: down_event_def)
  from t have "events_of (fst (ProcessEvent manager_one_down ?e (60 * Second))) (ev_TargetID ?e) =
         (if length (events_of manager_one_down (ev_TargetID ?e)) \<ge> 100
          then tl (events_of manager_one_down (ev_TargetID ?e) @ [?e])
          else events_of manager_one_down (ev_TargetID ?e) @ [?e])"
    by (elim conjE)
  then have b: "events_of (fst (ProcessEvent manager_one_down ?e (60 * Second))) 7
                  = [down_event 0, ?e]"
    by (simp add: tid manager_one_down_eq events_of_def)
  from t have "filter (\<lambda>d. d_rule d = 1) (snd (ProcessEvent manager_one_down ?e (60 * Second))) =
         (if rule_Enabled (failure_rule 300) \<and> applies_to (failure_rule 300) ?e
             \<and> \<not> in_cooldown (failure_rule 300) (60 * Second)
             \<and> shouldAlert (buffer_event manager_one_down ?e) ?e (failure_rule 300)
          then [sendAlert (buffer_event manager_one_down ?e) ?e (failure_rule 300)] else [])"
    by (elim conjE)
  then have c: "map d_rule (filter (\<lambda>d. d_rule d = 1)
         (snd (ProcessEvent manager_one_down ?e (60 * Second)))) = [1]"
    by (simp add: manager_one_down_eq failure_rule_def down_event_def buffer_event_def
          events_of_def applies_to_def in_cooldown_def shouldAlert_def sendAlert_def Let_def)
  show ?thesis
    by (intro conjI wf rule a b c)
qed

section \<open>Where the code departs from the specification\<close>

lemma RemoveTarget_goroutines:
  "monitor_goroutines (fst (RemoveTarget w tid)) = monitor_goroutines w"
  by (simp add: RemoveTarget_def split: option.splits)

text \<open>
  Claim C2 says that after \<open>RemoveTarget(id)\<close> the target's timer is stopped and no
  further ticks or results are produced for it, but for one probe in flight.  The code
  only deletes the registry entry.  Evaluated on a service to which the TCP target 3 was
  added: \<open>RemoveTarget 3\<close> succeeds and the registry no longer holds the target, yet its
  \<open>monitorTarget\<close> goroutine is still running; its next tick puts the target on the queue,
  and two rounds of tick and worker after the removal leave two history records for
  target 3.  In general \<open>RemoveTarget\<close> leaves the running goroutines as they are.
\<close>

theorem remove_target_keeps_ticking:
  "monitor_goroutines (fst (RemoveTarget w tid)) = monitor_goroutines w
   \<and> (snd (RemoveTarget (fst (AddTarget (new_world False) tcp_target)) 3) = None
   \<and> targets (svc (fst (RemoveTarget (fst (AddTarget (new_world False) tcp_target)) 3))) 3 = None
   \<and> monitor_goroutines (fst (RemoveTarget (fst (AddTarget (new_world False) tcp_target)) 3))
       = [tcp_target]
   \<and> checkQueue (svc (monitorTarget_tick
         (fst (RemoveTarget (fst (AddTarget (new_world False) tcp_target)) 3)) 0)) = [tcp_target]
   \<and> map h_TargetID (monitor_history (db
         (checkWorker_step (monitorTarget_tick
           (checkWorker_step (monitorTarget_tick
             (fst (RemoveTarget (fst (AddTarget (new_world False) tcp_target)) 3)) 0)
             io_ok (clk_at (day 100))) 0)
           io_ok (clk_at (day 100 + Second))))) = [3, 3])"
  (is "?G \<and> ?E")
proof -
  have g: ?G
    by (rule RemoveTarget_goroutines)
  have e: ?E
    by (simp add: RemoveTarget_def AddTarget_def new_world_def NewService_def tcp_target_def
        Let_def wrap_int64_def Second_def
        MonitorTarget0_def monitorTarget_tick_def enqueue_check_def checkWorker_step_def
        checkTarget_def NewChecker_def TCPChecker_Check_def io_ok_def history_saveResult
        history_row_def saveResult_frame)
  show ?thesis by (rule conjI [OF g e])
qed

lemma SMTPChecker_Check_refused:
  "snd (SMTPChecker_Check target (io\<lparr>smtp_tcp_dial := Some err\<rparr>)) = Some err"
  by (simp add: SMTPChecker_Check_def smtp_failed_def)

lemma checkTarget_smtp_refused:
  "db (checkTarget w (target\<lparr>Type := ''smtp''\<rparr>)
        (io\<lparr>io_smtp := (io_smtp io)\<lparr>smtp_tcp_dial := Some err\<rparr>\<rparr>) clk) = db w"
  by (simp add: checkTarget_def NewChecker_def SMTPChecker_Check_def smtp_failed_def)

text \<open>
  Claim C3 says that a probe that meets an I/O failure returns \<open>down\<close> with error details
  and a nil error, so that the worker forwards the result to the pipeline.  Evaluated for
  the SMTP target when the TCP connection is refused: the checker returns a \<open>down\<close>
  result without error details together with the error, and \<open>checkTarget\<close> logs it and
  returns: store and file log are as before.  The TCP checker in the same situation returns
  a nil error and its result is stored (a fifth history record, for target 3), again
  without error details.  In general, whenever the TCP connection of an SMTP check fails
  the checker returns the error and \<open>checkTarget\<close> leaves the store as it is.
\<close>

theorem smtp_failure_discarded:
  "(snd (SMTPChecker_Check target (sio\<lparr>smtp_tcp_dial := Some err\<rparr>)) = Some err
    \<and> db (checkTarget w (target\<lparr>Type := ''smtp''\<rparr>)
             (io\<lparr>io_smtp := (io_smtp io)\<lparr>smtp_tcp_dial := Some err\<rparr>\<rparr>) clk) = db w)
   \<and> (SMTPChecker_Check smtp_target (io_smtp io_refused) =
     (CheckResult0\<lparr>Status := ''down'', Message := ''Connection failed: connection refused''\<rparr>,
      Some ''connection refused'')
   \<and> db (checkTarget world_example smtp_target io_refused (clk_at (day 100))) = db world_example
   \<and> fileLog (checkTarget world_example smtp_target io_refused (clk_at (day 100))) = []
   \<and> logs (checkTarget world_example smtp_target io_refused (clk_at (day 100)))
       = [Printf ''Check failed for target 9: connection refused'']
   \<and> map h_TargetID (monitor_history (db
         (checkTarget world_example tcp_target io_refused (clk_at (day 100))))) = [7, 7, 7, 8, 3]
   \<and> Error (fst (TCPChecker_Check tcp_target io_refused)) = None)"
  (is "?G \<and> ?E")
proof -
  have g: ?G
    by (rule conjI [OF SMTPChecker_Check_refused checkTarget_smtp_refused])
  have e: ?E
    by (simp add: SMTPChecker_Check_def smtp_failed_def io_refused_def io_ok_def smtp_ok_def
        checkTarget_def NewChecker_def smtp_target_def tcp_target_def MonitorTarget0_def
        world_example_def new_world_def fmt_d_def fmt_nat.simps TCPChecker_Check_def
        history_saveResult history_row_def history_example_def CheckResult0_def)
  show ?thesis by (rule conjI [OF g e])
qed

lemma checkTarget_saved:
  assumes "NewChecker (Type target) = Inr c" and "snd (Check c target io) = None"
  shows "checkTarget w target io clk = saveResult w target (fst (Check c target io)) clk"
  using assms by (cases "Check c target io") (auto simp: checkTarget_def)

lemma checkTarget_discarded:
  assumes "NewChecker (Type target) = Inr c" and "snd (Check c target io) = Some err"
  shows "checkTarget w target io clk =
           w\<lparr>logs := logs w @
               [Printf (''Check failed for target '' @ fmt_d (uint (ID target))
                        @ '': '' @ err)]\<rparr>"
  using assms by (cases "Check c target io") (auto simp: checkTarget_def)

lemma https_merge_keys:
  "resp_Headers (Response (https_merge sr hr)) ''issuer'' = resp_Headers (Response hr) ''issuer''
   \<and> resp_Headers (Response (https_merge sr hr)) ''subject'' = resp_Headers (Response hr) ''subject''
   \<and> resp_Headers (Response (https_merge sr hr)) ''serial'' = resp_Headers (Response hr) ''serial''"
  by (simp add: https_merge_def Let_def copy_header_def split: option.splits)

text \<open>
  Claim C4 says that the merged HTTPS result carries the leaf certificate's issuer,
  subject and serial under the keys \<open>issuer\<close>, \<open>subject\<close> and \<open>serial\<close>, from which
  the pipeline fills the SSL fields of the status row.  Evaluated for the HTTPS target
  with the certificate check on, a web server answering 200 and a certificate that expires
  in 90 days: the merged headers hold the issuer under \<open>ssl_issuer\<close> and nothing under
  \<open>issuer\<close>; of the SSL fields of the stored row only the days until expiry are set.
  In general the merge leaves the keys \<open>issuer\<close>, \<open>subject\<close> and \<open>serial\<close> of the
  HTTP result's headers as the HTTP checker set them.
\<close>

theorem https_ssl_fields_not_stored:
  "(resp_Headers (Response (https_merge sr hr)) ''issuer'' = resp_Headers (Response hr) ''issuer''
    \<and> resp_Headers (Response (https_merge sr hr)) ''subject''
        = resp_Headers (Response hr) ''subject''
    \<and> resp_Headers (Response (https_merge sr hr)) ''serial''
        = resp_Headers (Response hr) ''serial'')
   \<and> resp_Headers (Response (fst (HTTPSChecker_Check https_target (io_cert (day 190)))))
       ''issuer'' = None
   \<and> resp_Headers (Response (fst (HTTPSChecker_Check https_target (io_cert (day 190)))))
       ''ssl_issuer'' = Some ''Example CA''
   \<and> resp_Headers (Response (fst (HTTPSChecker_Check https_target (io_cert (day 190)))))
       ''days_until_expiry'' = Some ''90''
   \<and> (\<exists>row. monitor_status (db (checkTarget (new_world False) https_target (io_cert (day 190))
                 (clk_at (day 100)))) 7 = Some row
          \<and> st_Status row = ''up''
          \<and> st_SSLIssuer row = None \<and> st_SSLSubject row = None \<and> st_SSLEserial row = None
          \<and> st_SSLDaysUntilExpiry row = Some 90)"
proof -
  let ?r = "fst (HTTPSChecker_Check https_target (io_cert (day 190)))"
  have days: "daysUntilExpiry_of (day 190) (day 100) = 90"
    by (simp add: daysUntilExpiry_of_def Hours_def time_Until_def time_Sub_def day_def
          Hour_def Second_def maxDuration_def minDuration_def go_int_of_float_def)
  have f90: "fmt_d 90 = ''90''"
    by (simp add: fmt_d_def fmt_nat.simps)
  have s90: "sscanf_d ''90'' = Some 90"
    by (simp add: sscanf_d_def starts_with_digit_def digit_val_def)
  have dial: "tls_DialWithDialer (io_cert (day 190)) = Inr [leaf_cert (day 190)]"
    by (simp add: tls_DialWithDialer_def x509_outside_validity_def io_cert_def io_ok_def
          leaf_cert_def day_def Hour_def Second_def)
  have ssl: "fst (SSLChecker_Check https_target (io_cert (day 190))) =
     CheckResult0
       \<lparr>Status := ''up'', ResponseTime := 50,
        Message := ''Certificate expires in 90 days'',
        Request := RequestDetails0\<lparr>req_Method := ''SSL'', req_URL := ''example.com:443''\<rparr>,
        Response := ResponseDetails0
          \<lparr>resp_StatusCode := 90,
           resp_Headers := ssl_headers (leaf_cert (day 190)) 1 []\<rparr>,
        Data := [(''certificate_chain'',
                  DChain [\<lparr>ci_index = 0, ci_subject_cn = ''example.com'',
                           ci_issuer_cn = ''Example CA'', ci_serial = ''1A2B'',
                           ci_days_until_expiry = 90, ci_is_ca = False\<rparr>])]\<rparr>"
    unfolding SSLChecker_Check_def dial
    by (simp add: io_cert_def io_ok_def https_target_def MonitorTarget0_def
          Let_def days f90 ssl_status_message_def certInfo_def leaf_cert_def enumerate_eq_zip)
  have http: "fst (HTTPChecker_Check https_target (io_cert (day 190))) =
     CheckResult0
       \<lparr>Status := ''up'', ResponseTime := 40, Message := ''HTTP 200 200 OK'',
        Request := \<lparr>req_Method = ''GET'', req_URL = ''https://example.com'',
                     req_Headers = Map.empty, req_Body = []\<rparr>,
        Response := \<lparr>resp_StatusCode = 200,
                      resp_Headers = [''resolved_ip'' \<mapsto> ''93.184.216.34''],
                      resp_Body = [], resp_ContentLength = 0\<rparr>\<rparr>"
    by (simp add: HTTPChecker_Check_def io_cert_def io_ok_def ok_response_def https_target_def
          MonitorTarget0_def Let_def determineStatus_def http_request_details_def
          http_method_def http_url_def HasPrefix_def fmt_d_def fmt_nat.simps)
  have sc: "SSLCheck https_target"
    by (simp add: https_target_def)
  have r_eq: "?r = (https_merge (fst (SSLChecker_Check https_target (io_cert (day 190))))
                     (fst (HTTPChecker_Check https_target (io_cert (day 190)))))
                   \<lparr>ResponseTime := io_https_ms (io_cert (day 190))\<rparr>"
    using HTTPChecker_Check_no_error [of https_target "io_cert (day 190)"]
    by (simp add: HTTPSChecker_Check_def Let_def sc)
  have hdr: "resp_Headers (Response ?r) =
      [''resolved_ip'' \<mapsto> ''93.184.216.34'', ''ssl_issuer'' \<mapsto> ''Example CA'',
       ''ssl_subject'' \<mapsto> ''example.com'', ''ssl_serial'' \<mapsto> ''1A2B'',
       ''days_until_expiry'' \<mapsto> ''90'']"
    unfolding r_eq ssl http
    by (simp add: https_merge_def copy_header_def copy_data_def leaf_days_def ssl_headers_def
          leaf_cert_def CheckResult0_def ResponseDetails0_def RequestDetails0_def f90 Let_def)
  have st: "Status ?r = ''up''"
    unfolding r_eq ssl http
    by (simp add: https_merge_def CheckResult0_def Let_def)
  have err: "snd (HTTPSChecker_Check https_target (io_cert (day 190))) = None"
    by (simp add: HTTPSChecker_Check_def Let_def HTTPChecker_Check_no_error)
  have nc: "NewChecker (Type https_target) = Inr HTTPSChecker"
    by (simp add: NewChecker_def https_target_def)
  have ct: "checkTarget (new_world False) https_target (io_cert (day 190)) (clk_at (day 100)) =
              saveResult (new_world False) https_target ?r (clk_at (day 100))"
    using checkTarget_saved [OF nc, of "io_cert (day 190)"] err by simp
  have ty: "Type https_target = ''https''" "ID https_target = 7"
    by (simp_all add: https_target_def)
  obtain u where row: "monitor_status (db (saveResult (new_world False) https_target ?r
                         (clk_at (day 100)))) (ID https_target) =
          Some ((status_row (db (new_world False)) https_target ?r (clk_at (day 100)))
                  \<lparr>st_UptimePercentage := u\<rparr>)"
    using saveResult_status by blast
  have fields: "st_Status (status_row (db (new_world False)) https_target ?r (clk_at (day 100))) = ''up''
      \<and> st_SSLIssuer (status_row (db (new_world False)) https_target ?r (clk_at (day 100))) = None
      \<and> st_SSLSubject (status_row (db (new_world False)) https_target ?r (clk_at (day 100))) = None
      \<and> st_SSLEserial (status_row (db (new_world False)) https_target ?r (clk_at (day 100))) = None
      \<and> st_SSLDaysUntilExpiry (status_row (db (new_world False)) https_target ?r (clk_at (day 100)))
          = Some 90"
    by (simp add: status_row_def Let_def ty hdr st ssl_fields_def s90 new_world_def
          MonitorStatus0_def)
  have e: "resp_Headers (Response ?r) ''issuer'' = None
      \<and> resp_Headers (Response ?r) ''ssl_issuer'' = Some ''Example CA''
      \<and> resp_Headers (Response ?r) ''days_until_expiry'' = Some ''90''
      \<and> (\<exists>row. monitor_status (db (checkTarget (new_world False) https_target
                    (io_cert (day 190)) (clk_at (day 100)))) 7 = Some row
             \<and> st_Status row = ''up''
             \<and> st_SSLIssuer row = None \<and> st_SSLSubject row = None \<and> st_SSLEserial row = None
             \<and> st_SSLDaysUntilExpiry row = Some 90)"
    using row fields by (simp add: hdr ct ty)
  show ?thesis
    by (rule conjI [OF https_merge_keys e])
qed

lemma daysUntilExpiry_of_trunc:
  "daysUntilExpiry_of notAfter now = go_quot (time_Until notAfter now) (24 * Hour)"
proof -
  define d where "d = time_Until notAfter now"
  have h: "Hours d / 24 = real_of_int d / real_of_int (24 * Hour)"
    by (simp add: Hours_def)
  have pos: "(0::int) < 24 * Hour" by (simp add: Hour_def Second_def)
  have neg: "(Hours d / 24 < 0) = (d < 0)"
    using pos by (simp add: h divide_less_0_iff del: of_int_mult)
  have fl: "\<lfloor>real_of_int d / real_of_int (24 * Hour)\<rfloor> = d div (24 * Hour)"
    by (rule floor_divide_of_int_eq)
  have fl2: "\<lfloor>- (real_of_int d / real_of_int (24 * Hour))\<rfloor> = (- d) div (24 * Hour)"
    using floor_divide_of_int_eq [of "- d" "24 * Hour"] by (simp del: of_int_mult)
  show ?thesis
    unfolding daysUntilExpiry_of_def d_def [symmetric] go_int_of_float_def neg
    using pos by (simp add: h fl fl2 go_quot_def del: of_int_mult)
qed

lemma SSLChecker_Check_status:
  "Status (fst (SSLChecker_Check target (io\<lparr>io_tls := TLSConnected (leafCert # rest)\<rparr>))) =
     (if x509_outside_validity leafCert (io_verify_now io) then ''down''
      else fst (ssl_status_message
                  (go_quot (time_Until (NotAfter leafCert) (io_now io)) (24 * Hour)) target))"
  by (simp add: SSLChecker_Check_def tls_DialWithDialer_def Let_def daysUntilExpiry_of_trunc)

text \<open>
  Claim C5 says that the days until expiry are the floor of the remaining time in days and
  that a leaf certificate whose validity ended one second ago yields \<open>down\<close>.  In general,
  for a server that presents a chain: when the leaf is outside its validity period at the
  handshake's verification the dial fails and the status is \<open>down\<close>; otherwise the days
  are the quotient, rounded towards zero, of the remaining time at the later call of
  \<open>time.Until\<close> by 24 hours, and the status follows from the days as the claim says.
  Evaluated for a leaf that is still valid at the verification and whose validity ends
  one second before \<open>time.Until\<close> is called: the dial succeeds, the conversion to \<open>int\<close>
  gives 0 days where the floor is -1, and with \<open>critical_days = 7\<close> the status is
  \<open>critical\<close>.  The same certificate, verified after the end of its validity, yields
  \<open>down\<close>.
\<close>

theorem leaf_expiring_in_handshake_is_critical:
  "(daysUntilExpiry_of notAfter now = go_quot (time_Until notAfter now) (24 * Hour)
    \<and> Status (fst (SSLChecker_Check target (io\<lparr>io_tls := TLSConnected (leafCert # rest)\<rparr>))) =
     (if io_verify_now io < NotBefore leafCert \<or> NotAfter leafCert < io_verify_now io
      then ''down''
      else if go_quot (time_Until (NotAfter leafCert) (io_now io)) (24 * Hour) < 0
      then ''down''
      else if go_quot (time_Until (NotAfter leafCert) (io_now io)) (24 * Hour)
                \<le> SSLCriticalDays target
      then ''critical''
      else if go_quot (time_Until (NotAfter leafCert) (io_now io)) (24 * Hour)
                \<le> SSLWarnDays target
      then ''warning''
      else ''up''))
   \<and> (tls_DialWithDialer ((io_cert (day 100 - Second))\<lparr>io_verify_now := day 100 - Second\<rparr>)
         = Inr [leaf_cert (day 100 - Second)]
      \<and> io_now ((io_cert (day 100 - Second))\<lparr>io_verify_now := day 100 - Second\<rparr>) = day 100
      \<and> resp_StatusCode (Response (fst (SSLChecker_Check https_target
           ((io_cert (day 100 - Second))\<lparr>io_verify_now := day 100 - Second\<rparr>)))) = 0
      \<and> \<lfloor>Hours (time_Until (day 100 - Second) (day 100)) / 24\<rfloor> = - 1
      \<and> SSLCriticalDays https_target = 7
      \<and> Status (fst (SSLChecker_Check https_target
           ((io_cert (day 100 - Second))\<lparr>io_verify_now := day 100 - Second\<rparr>))) = ''critical''
      \<and> io_verify_now (io_cert (day 100 - Second)) = day 100
      \<and> Status (fst (SSLChecker_Check https_target (io_cert (day 100 - Second)))) = ''down'')"
  (is "?G \<and> ?E")
proof -
  have g: ?G
    by (simp add: SSLChecker_Check_status x509_outside_validity_def ssl_status_message_def
          daysUntilExpiry_of_trunc)
  have e: ?E
    by (simp add: daysUntilExpiry_of_def Hours_def time_Until_def time_Sub_def day_def Hour_def
        Second_def maxDuration_def minDuration_def go_int_of_float_def SSLChecker_Check_def
        tls_DialWithDialer_def x509_outside_validity_def
        ssl_status_message_def https_target_def MonitorTarget0_def io_ok_def leaf_cert_def
        io_cert_def Let_def CheckResult0_def ResponseDetails0_def)
  show ?thesis by (rule conjI [OF g e])
qed

text \<open>
  Claim C6 says that the DoT transport wraps its TCP connection to port 853 in TLS with
  hostname verification.  Evaluated for the server \<open>1.1.1.1\<close>: the port defaults to 853
  and the query is framed with the two-byte big-endian length as in DNS over TCP, but it
  is written to the TCP connection itself, and the bytes on the wire are those of
  \<open>lookupTCP\<close> to \<open>1.1.1.1:853\<close>: \<open>tlsClient\<close> hands back the connection it was given.
\<close>

theorem dot_sends_plain_tcp:
  "snd (lookupDoT dot_resolver ''example.org'' dns_io_example) =
     [Dial ''tcp'' ''1.1.1.1:853'',
      Write (TCPConn ''1.1.1.1:853'') [0, 4, 0xAB, 0xCD, 1, 0],
      Close (TCPConn ''1.1.1.1:853'')]
   \<and> snd (lookupDoT dot_resolver ''example.org'' dns_io_example) =
       snd (lookupTCP (dot_resolver\<lparr>Server := ''1.1.1.1:853''\<rparr>) ''example.org'' dns_io_example)"
  by (simp add: lookupDoT_def lookupTCP_def dot_address_def SplitHostPort_def JoinHostPort_def
        last_index_byte_def dot_resolver_def dns_io_example_def tlsClient_def exchange_def
        lengthPrefix_def Let_def)

end
